theory Spec2Isabelle
  imports Complex_Main "HOL-Library.Multiset"
begin

section \<open>Errors\<close>

text \<open>
  Every \<^verbatim>\<open>raise\<close> of \<^verbatim>\<open>physics.py\<close> and \<^verbatim>\<open>srim_parser.py\<close> is one constructor; the
  Python exception class and message are given beside it. A Python
  \<^verbatim>\<open>str\<close> is read as a list of 8-bit characters (code points below 256).
\<close>

datatype error =
    InitialEnergyNotPositive    \<comment> \<open>ValueError("Initial energy must be positive")\<close>
  | ObservedEnergyNotPositive   \<comment> \<open>ValueError("Observed energy must be positive")\<close>
  | ObservedExceedsInitial      \<comment> \<open>ValueError("Observed energy cannot exceed initial energy ...")\<close>
  | NegativeBirksConstant       \<comment> \<open>ValueError("Birks constant must be non-negative")\<close>
  | NoSolutionAtWidenedMax      \<comment> \<open>ValueError("No solution found. Maximum kB of 2.0 mm/MeV still gives ...")\<close>
  | NoSolutionBelowRange        \<comment> \<open>ValueError("No solution found in the range. ...")\<close>
  | IntegrationFailed           \<comment> \<open>RuntimeError("Integration failed: ...")\<close>
  | RootFindingFailed           \<comment> \<open>RuntimeError("Root finding failed: ...")\<close>
  | EmptyTable                  \<comment> \<open>IndexError of \<^verbatim>\<open>iloc[0]\<close> on a table without rows\<close>
  | NoDataSection               \<comment> \<open>ValueError("Could not find data section in SRIM output. ...")\<close>
  | NoDataPoints                \<comment> \<open>ValueError("No data points found in SRIM output. ...")\<close>
  | UnknownEnergyUnit string    \<comment> \<open>ValueError("Unknown energy unit: ...")\<close>
  | FloatSyntax string          \<comment> \<open>ValueError("could not convert string to float: ...")\<close>

text \<open>
  The specification's taxonomy: \<^verbatim>\<open>InvalidArgument\<close> is bad caller input (negative kB,
  non-positive energies, observed above initial); \<^verbatim>\<open>NoSolutionInRange\<close> is a root that
  is not bracketed.
\<close>

fun is_InvalidArgument :: "error \<Rightarrow> bool" where
  "is_InvalidArgument InitialEnergyNotPositive = True"
| "is_InvalidArgument ObservedEnergyNotPositive = True"
| "is_InvalidArgument ObservedExceedsInitial = True"
| "is_InvalidArgument NegativeBirksConstant = True"
| "is_InvalidArgument _ = False"


section \<open>Python floats\<close>

text \<open>
  A Python float is read as a real number (no rounding, no overflow). The three special
  values are kept, because the interpolation of scipy produces them when it divides by
  zero, and the code then computes with them: \<^verbatim>\<open>inf\<close>, \<^verbatim>\<open>-inf\<close> and \<^verbatim>\<open>nan\<close>. The
  operations below are the IEEE ones: \<^verbatim>\<open>0 * inf\<close> and \<^verbatim>\<open>inf - inf\<close> are \<^verbatim>\<open>nan\<close>, \<^verbatim>\<open>nan\<close>
  propagates, and every comparison with \<^verbatim>\<open>nan\<close> is false.
\<close>

datatype pyfloat = Num real | PosInf | NegInf | NaN

fun fmul :: "pyfloat \<Rightarrow> pyfloat \<Rightarrow> pyfloat" where
  "fmul (Num a) (Num b) = Num (a * b)"
| "fmul NaN _ = NaN"
| "fmul _ NaN = NaN"
| "fmul PosInf (Num b) = (if 0 < b then PosInf else if b < 0 then NegInf else NaN)"
| "fmul NegInf (Num b) = (if 0 < b then NegInf else if b < 0 then PosInf else NaN)"
| "fmul (Num a) PosInf = (if 0 < a then PosInf else if a < 0 then NegInf else NaN)"
| "fmul (Num a) NegInf = (if 0 < a then NegInf else if a < 0 then PosInf else NaN)"
| "fmul PosInf PosInf = PosInf"
| "fmul PosInf NegInf = NegInf"
| "fmul NegInf PosInf = NegInf"
| "fmul NegInf NegInf = PosInf"

fun fadd :: "pyfloat \<Rightarrow> pyfloat \<Rightarrow> pyfloat" where
  "fadd (Num a) (Num b) = Num (a + b)"
| "fadd NaN _ = NaN"
| "fadd _ NaN = NaN"
| "fadd PosInf NegInf = NaN"
| "fadd NegInf PosInf = NaN"
| "fadd PosInf _ = PosInf"
| "fadd _ PosInf = PosInf"
| "fadd NegInf _ = NegInf"
| "fadd _ NegInf = NegInf"

fun fneg :: "pyfloat \<Rightarrow> pyfloat" where
  "fneg (Num a) = Num (- a)"
| "fneg PosInf = NegInf"
| "fneg NegInf = PosInf"
| "fneg NaN = NaN"

definition fsub :: "pyfloat \<Rightarrow> pyfloat \<Rightarrow> pyfloat" where
  "fsub a b = fadd a (fneg b)"

text \<open>The comparisons \<^verbatim>\<open>x <= 0\<close>, \<^verbatim>\<open>x > 0\<close> and \<^verbatim>\<open>x < 0\<close>.\<close>

fun le_zero :: "pyfloat \<Rightarrow> bool" where
  "le_zero (Num a) \<longleftrightarrow> a \<le> 0"
| "le_zero NegInf \<longleftrightarrow> True"
| "le_zero PosInf \<longleftrightarrow> False"
| "le_zero NaN \<longleftrightarrow> False"

fun gt_zero :: "pyfloat \<Rightarrow> bool" where
  "gt_zero (Num a) \<longleftrightarrow> 0 < a"
| "gt_zero PosInf \<longleftrightarrow> True"
| "gt_zero NegInf \<longleftrightarrow> False"
| "gt_zero NaN \<longleftrightarrow> False"


text \<open>
  The division of two numbers inside numpy, which does not raise: a zero divisor gives
  \<^verbatim>\<open>inf\<close>, \<^verbatim>\<open>-inf\<close> or \<^verbatim>\<open>nan\<close> by the sign of the dividend. (The divisor of the
  interpolation is a difference of two equal samples, the positive zero.)
\<close>

definition np_divide :: "real \<Rightarrow> real \<Rightarrow> pyfloat" where
  "np_divide a b =
     (if b \<noteq> 0 then Num (a / b)
      else if 0 < a then PosInf else if a < 0 then NegInf else NaN)"

text \<open>
  \<^verbatim>\<open>1.0 / denom\<close> for a \<^verbatim>\<open>denom\<close> that is not \<^verbatim>\<open><= 0\<close> (the integrand divides only
  after that test, so the ZeroDivisionError of Python's own division cannot occur), and
  \<^verbatim>\<open>x / d\<close> for a positive number \<open>d\<close>.
\<close>

fun recip :: "pyfloat \<Rightarrow> pyfloat" where
  "recip (Num a) = Num (1 / a)"
| "recip PosInf = Num 0"
| "recip NegInf = Num 0"
| "recip NaN = NaN"

fun div_by :: "pyfloat \<Rightarrow> real \<Rightarrow> pyfloat" where
  "div_by (Num a) d = Num (a / d)"
| "div_by PosInf d = PosInf"
| "div_by NegInf d = NegInf"
| "div_by NaN d = NaN"

section \<open>The stopping-power curve (\<^verbatim>\<open>BirksCalculator.__init__\<close>)\<close>

text \<open>A DataFrame with the columns Energy\_MeV and dE\_dx is the list of its rows.\<close>

type_synonym table = "(real \<times> real) list"

text \<open>
  \<^verbatim>\<open>df.sort_values('Energy_MeV').reset_index(drop=True)\<close>: the rows in ascending order
  of the first column. (pandas does not promise the order among rows of equal energy;
  nothing below depends on it.)
\<close>

definition sort_values :: "table \<Rightarrow> table" where
  "sort_values df = sort_key fst df"

record calculator =
  energy :: "real list"
  dedx :: "real list"
  max_energy :: real
  min_energy :: real

definition init :: "table \<Rightarrow> error + calculator" where
  "init df0 =
     (let df = sort_values df0 in
      case df of
        [] \<Rightarrow> Inl EmptyTable
      | (e0, _) # _ \<Rightarrow>
          let df' = (if e0 > 0 then (0, 0) # df else df) in
          Inr \<lparr> energy = map fst df', dedx = map snd df',
                max_energy = last (map fst df'), min_energy = hd (map fst df') \<rparr>)"

text \<open>
  \<^verbatim>\<open>interp1d(x, y, kind='linear', bounds_error=False, fill_value='extrapolate')\<close> of
  scipy: the query is located with \<^verbatim>\<open>searchsorted\<close> (the number of samples strictly below
  it), the index is clipped with \<^verbatim>\<open>clip(1, len - 1)\<close> (which is 0 for a single sample),
  and the line through the samples \<open>lo = i - 1\<close> and \<open>hi = i\<close> is evaluated, also outside
  the sampled range; the index \<open>-1\<close> is the last sample. The slope is a quotient inside
  numpy: where the two samples have the same energy (a single sample; below a repeated
  first energy; above a repeated last energy) the result is \<^verbatim>\<open>inf\<close>, \<^verbatim>\<open>-inf\<close> or \<^verbatim>\<open>nan\<close>.
\<close>

definition searchsorted :: "real list \<Rightarrow> real \<Rightarrow> nat" where
  "searchsorted xs x = length (takeWhile (\<lambda>e. e < x) xs)"

definition interp1d :: "real list \<Rightarrow> real list \<Rightarrow> real \<Rightarrow> pyfloat" where
  "interp1d xs ys x_new =
     (let i = min (max (searchsorted xs x_new) 1) (length xs - 1);
          lo = (if i = 0 then length xs - 1 else i - 1); hi = i;
          x_lo = xs ! lo; x_hi = xs ! hi;
          y_lo = ys ! lo; y_hi = ys ! hi;
          slope = np_divide (y_hi - y_lo) (x_hi - x_lo)
      in fadd (fmul slope (Num (x_new - x_lo))) (Num y_lo))"

definition get_dedx :: "calculator \<Rightarrow> real \<Rightarrow> pyfloat" where
  "get_dedx calc energy_mev = interp1d (energy calc) (dedx calc) energy_mev"

section \<open>Forward calculation\<close>

text \<open>
  \<^verbatim>\<open>scipy.integrate.quad(integrand, a, b, limit=100, epsabs=1e-6, epsrel=1e-6)\<close> is
  library code: it is a parameter of the model. \<open>None\<close> stands for any exception it
  raises; the float it returns may be \<^verbatim>\<open>nan\<close>.
\<close>

type_synonym quad = "(real \<Rightarrow> pyfloat) \<Rightarrow> real \<Rightarrow> real \<Rightarrow> pyfloat option"

definition integrand :: "calculator \<Rightarrow> real \<Rightarrow> real \<Rightarrow> pyfloat" where
  "integrand calc kb_mm_mev E =
     (let dedx_val = get_dedx calc E;
          denom = fadd (Num 1) (fmul (Num kb_mm_mev) dedx_val)
      in if le_zero denom then Num 0 else recip denom)"

definition calculate_visible_energy :: "quad \<Rightarrow> calculator \<Rightarrow> real \<Rightarrow> real \<Rightarrow> error + pyfloat" where
  "calculate_visible_energy quad calc initial_energy_mev kb_mm_mev =
     (if initial_energy_mev \<le> 0 then Inr (Num 0)
      else if kb_mm_mev < 0 then Inl NegativeBirksConstant
      else case quad (integrand calc kb_mm_mev) 0 initial_energy_mev of
             None \<Rightarrow> Inl IntegrationFailed
           | Some visible_energy \<Rightarrow> Inr visible_energy)"

definition calculate_quenching_factor :: "quad \<Rightarrow> calculator \<Rightarrow> real \<Rightarrow> real \<Rightarrow> error + pyfloat" where
  "calculate_quenching_factor quad calc initial_energy_mev kb_mm_mev =
     (if initial_energy_mev \<le> 0 then Inr (Num 0)
      else case calculate_visible_energy quad calc initial_energy_mev kb_mm_mev of
             Inl e \<Rightarrow> Inl e
           | Inr visible_energy \<Rightarrow> Inr (div_by visible_energy initial_energy_mev))"

section \<open>Inverse calculation\<close>

text \<open>
  \<^verbatim>\<open>scipy.optimize.brentq(objective, a, b, xtol=1e-8, rtol=1e-8, maxiter=100)\<close> is a
  parameter as well; \<open>None\<close> is any exception leaving it, which \<^verbatim>\<open>solve_kb\<close> turns into
  the RuntimeError "Root finding failed".

  \<^verbatim>\<open>solve_kb\<close> returns its result together with the calls it made, in order: each
  evaluation of the objective (an integration) and the root search.
\<close>

type_synonym brentq = "(real \<Rightarrow> error + pyfloat) \<Rightarrow> real \<Rightarrow> real \<Rightarrow> real option"

datatype event = Objective real | RootSearch real real

definition objective :: "quad \<Rightarrow> calculator \<Rightarrow> real \<Rightarrow> real \<Rightarrow> real \<Rightarrow> error + pyfloat" where
  "objective quad calc initial_energy_mev observed_energy_mev kb =
     (case calculate_visible_energy quad calc initial_energy_mev kb of
        Inl e \<Rightarrow> Inl e
      | Inr calc_energy \<Rightarrow> Inr (fsub calc_energy (Num observed_energy_mev)))"

definition root_search ::
  "brentq \<Rightarrow> (real \<Rightarrow> error + pyfloat) \<Rightarrow> real \<Rightarrow> real \<Rightarrow> event list \<Rightarrow> (error + real) \<times> event list" where
  "root_search brentq f kb_min kb_max calls =
     (case brentq f kb_min kb_max of
        None \<Rightarrow> (Inl RootFindingFailed, calls @ [RootSearch kb_min kb_max])
      | Some kb_solution \<Rightarrow> (Inr kb_solution, calls @ [RootSearch kb_min kb_max]))"

definition solve_kb ::
  "quad \<Rightarrow> brentq \<Rightarrow> calculator \<Rightarrow> real \<Rightarrow> real \<Rightarrow> real \<Rightarrow> real \<Rightarrow> (error + real) \<times> event list" where
  "solve_kb quad brentq calc initial_energy_mev observed_energy_mev kb_min kb_max =
     (let f = objective quad calc initial_energy_mev observed_energy_mev in
      if initial_energy_mev \<le> 0 then (Inl InitialEnergyNotPositive, [])
      else if observed_energy_mev \<le> 0 then (Inl ObservedEnergyNotPositive, [])
      else if observed_energy_mev > initial_energy_mev then (Inl ObservedExceedsInitial, [])
      else if \<bar>observed_energy_mev - initial_energy_mev\<bar> < 1 / 10 ^ 9 then (Inr 0, [])
      else
        case f kb_min of
          Inl e \<Rightarrow> (Inl e, [Objective kb_min])
        | Inr f_min \<Rightarrow>
           (case f kb_max of
              Inl e \<Rightarrow> (Inl e, [Objective kb_min, Objective kb_max])
            | Inr f_max \<Rightarrow>
                if gt_zero (fmul f_min f_max) then
                  (if gt_zero f_max then
                     (case f 2 of
                        Inl e \<Rightarrow> (Inl e, [Objective kb_min, Objective kb_max, Objective 2])
                      | Inr f_max' \<Rightarrow>
                          if gt_zero f_max'
                          then (Inl NoSolutionAtWidenedMax,
                                [Objective kb_min, Objective kb_max, Objective 2])
                          else root_search brentq f kb_min 2
                                [Objective kb_min, Objective kb_max, Objective 2])
                   else (Inl NoSolutionBelowRange, [Objective kb_min, Objective kb_max]))
                else root_search brentq f kb_min kb_max [Objective kb_min, Objective kb_max]))"

text \<open>The call with the default bracket \<^verbatim>\<open>kb_min=0.0, kb_max=0.5\<close>.\<close>

definition solve_kb_default ::
  "quad \<Rightarrow> brentq \<Rightarrow> calculator \<Rightarrow> real \<Rightarrow> real \<Rightarrow> (error + real) \<times> event list" where
  "solve_kb_default quad brentq calc initial_energy_mev observed_energy_mev =
     solve_kb quad brentq calc initial_energy_mev observed_energy_mev 0 (1 / 2)"

section \<open>Contracts of the numerical routines\<close>

text \<open>
  What a single call of the quadrature achieved: the integrand is a number at every
  point of the interval and has an antiderivative \<open>F\<close> there, and the returned float is a
  number within \<open>tol\<close> of \<open>F b - F a\<close>. Exact integration is \<open>tol = 0\<close>; scipy aims at
  \<open>tol = max epsabs (epsrel * \<bar>I\<bar>)\<close>.
\<close>

definition antiderivative :: "(real \<Rightarrow> real) \<Rightarrow> (real \<Rightarrow> pyfloat) \<Rightarrow> real \<Rightarrow> real \<Rightarrow> bool" where
  "antiderivative F f a b \<longleftrightarrow>
     (\<forall>x. a \<le> x \<and> x \<le> b \<longrightarrow> (\<exists>y. f x = Num y \<and> (F has_real_derivative y) (at x)))"

definition quad_within :: "real \<Rightarrow> quad \<Rightarrow> (real \<Rightarrow> pyfloat) \<Rightarrow> real \<Rightarrow> real \<Rightarrow> bool" where
  "quad_within tol quad f a b \<longleftrightarrow>
     (\<exists>F v. antiderivative F f a b \<and> quad f a b = Some (Num v) \<and> \<bar>v - (F b - F a)\<bar> \<le> tol)"

text \<open>
  What a single call of Brent's method achieved with \<^verbatim>\<open>xtol = rtol = 1e-8\<close>: it returned
  a point \<open>x\<close> of the bracket, and the objective changes sign (or vanishes) between \<open>x\<close>
  and a point \<open>p\<close> of the bracket no farther from \<open>x\<close> than \<open>xtol + rtol * \<bar>x\<bar>\<close>.
\<close>

definition brentq_meets_tolerance :: "brentq \<Rightarrow> (real \<Rightarrow> error + pyfloat) \<Rightarrow> real \<Rightarrow> real \<Rightarrow> bool" where
  "brentq_meets_tolerance brentq f a b \<longleftrightarrow>
     (\<exists>x p y yp. brentq f a b = Some x \<and>
        min a b \<le> x \<and> x \<le> max a b \<and> min a b \<le> p \<and> p \<le> max a b \<and>
        \<bar>p - x\<bar> \<le> 1 / 10 ^ 8 + \<bar>x\<bar> / 10 ^ 8 \<and>
        f x = Inr (Num y) \<and> f p = Inr (Num yp) \<and> y * yp \<le> 0)"

text \<open>
  The computed forward map \<open>V\<close> (visible energy as a function of kB) returns a number on
  all of \<open>[a, b]\<close> and is strictly decreasing there.
\<close>

definition strictly_decreasing_between :: "(real \<Rightarrow> error + pyfloat) \<Rightarrow> real \<Rightarrow> real \<Rightarrow> bool" where
  "strictly_decreasing_between V a b \<longleftrightarrow>
     (\<forall>k1 k2. a \<le> k1 \<and> k1 < k2 \<and> k2 \<le> b \<longrightarrow>
        (\<exists>v1 v2. V k1 = Inr (Num v1) \<and> V k2 = Inr (Num v2) \<and> v2 < v1))"

section \<open>Runnable stand-ins and sample curves\<close>

text \<open>
  A quadrature and a root finder that can be run, for concrete instances of the
  statements below: the one-point midpoint rule (exact on constant integrands) and
  bisection with at most 100 steps.
\<close>

definition quad_midpoint :: quad where
  "quad_midpoint f a b = Some (fmul (Num (b - a)) (f ((a + b) / 2)))"

fun bisect :: "nat \<Rightarrow> (real \<Rightarrow> error + pyfloat) \<Rightarrow> real \<Rightarrow> real \<Rightarrow> real option" where
  "bisect 0 f a b = None"
| "bisect (Suc n) f a b =
     (let m = (a + b) / 2 in
      case (f a, f m) of
        (Inr (Num ya), Inr (Num ym)) \<Rightarrow>
          if ym = 0 \<or> \<bar>b - a\<bar> \<le> 1 / 10 ^ 8 then Some m
          else if ya * ym < 0 then bisect n f a m
          else bisect n f m b
      | _ \<Rightarrow> None)"

definition brentq_bisect :: brentq where
  "brentq_bisect f a b = bisect 100 f a b"

text \<open>
  Constant stopping power 1; stopping power \<open>1 - E\<close>, negative above \<open>E = 1\<close>; the
  curve of the one-row table \<open>[(0, 5)]\<close>.
\<close>

definition flat_curve :: calculator where
  "flat_curve = \<lparr> energy = [0, 1], dedx = [1, 1], max_energy = 1, min_energy = 0 \<rparr>"

definition falling_curve :: calculator where
  "falling_curve = \<lparr> energy = [0, 1], dedx = [1, 0], max_energy = 1, min_energy = 0 \<rparr>"

definition one_row_curve :: calculator where
  "one_row_curve = \<lparr> energy = [0], dedx = [5], max_energy = 0, min_energy = 0 \<rparr>"

text \<open>A curve whose last energy is repeated.\<close>

definition step_curve :: calculator where
  "step_curve = \<lparr> energy = [0, 1, 1], dedx = [1, 1, 3], max_energy = 1, min_energy = 0 \<rparr>"

section \<open>The SRIM text parser (\<^verbatim>\<open>srim_parser.py\<close>)\<close>

subsection \<open>Strings\<close>

text \<open>
  \<^verbatim>\<open>str.isspace\<close>, which is also the class \<^verbatim>\<open>\s\<close> of a Python 3 \<^verbatim>\<open>str\<close> pattern: below
  code point 256 these are tab, line feed, vertical tab, form feed, carriage return,
  the separators 0x1C to 0x1F, the space, NEL (0x85) and the no-break space (0xA0).
  The class \<^verbatim>\<open>\d\<close> holds the decimal digits, below 256 the ten ASCII ones.
\<close>

definition isspace :: "char \<Rightarrow> bool" where
  "isspace c \<longleftrightarrow> c \<in> set [CHR 0x09, CHR 0x0A, CHR 0x0B, CHR 0x0C, CHR 0x0D,
                           CHR 0x1C, CHR 0x1D, CHR 0x1E, CHR 0x1F, CHR 0x20, CHR 0x85, CHR 0xA0]"

definition isdigit :: "char \<Rightarrow> bool" where
  "isdigit c \<longleftrightarrow> c \<in> set ''0123456789''"

definition strip :: "string \<Rightarrow> string" where
  "strip s = rev (dropWhile isspace (rev (dropWhile isspace s)))"

text \<open>\<^verbatim>\<open>s.split('\n')\<close>: the pieces between line feeds; one piece for a text without any.\<close>

fun split_lines :: "string \<Rightarrow> string list" where
  "split_lines [] = [[]]"
| "split_lines (c # cs) =
     (if c = CHR 0x0A then [] # split_lines cs
      else case split_lines cs of
             l # ls \<Rightarrow> (c # l) # ls
           | [] \<Rightarrow> [[c]])"

definition startswith :: "string \<Rightarrow> string \<Rightarrow> bool" where
  "startswith s p \<longleftrightarrow> take (length p) s = p"

text \<open>\<^verbatim>\<open>sub in s\<close>: \<open>sub\<close> occurs in \<open>s\<close> as a contiguous piece.\<close>

fun contains :: "string \<Rightarrow> string \<Rightarrow> bool" where
  "contains [] sub \<longleftrightarrow> sub = []"
| "contains (c # cs) sub \<longleftrightarrow> startswith (c # cs) sub \<or> contains cs sub"

text \<open>
  \<^verbatim>\<open>str.lower\<close> below code point 256: the ASCII capitals and the Latin-1 capitals
  0xC0 to 0xDE (but the multiplication sign 0xD7) move up by 32.
\<close>

definition lower_char :: "char \<Rightarrow> char" where
  "lower_char c =
     (let n = (of_char c :: nat) in
      if (65 \<le> n \<and> n \<le> 90) \<or> (192 \<le> n \<and> n \<le> 222 \<and> n \<noteq> 215) then char_of (n + 32) else c)"

definition lower :: "string \<Rightarrow> string" where
  "lower s = map lower_char s"

subsection \<open>\<^verbatim>\<open>float(...)\<close> on the text of a matched group\<close>

text \<open>
  Python's \<^verbatim>\<open>float\<close> accepts \<^verbatim>\<open>[sign] number [exponent]\<close> with
  \<^verbatim>\<open>number ::= [digits] "." digits | digits ["."]\<close> and
  \<^verbatim>\<open>exponent ::= ("e" | "E") [sign] digits\<close>, and raises ValueError otherwise. (It also
  accepts surrounding white space, underscores between digits and the words inf and nan;
  none of these can be written with the characters the parser's groups capture: digits,
  the dot, \<^verbatim>\<open>E\<close>, \<^verbatim>\<open>+\<close> and \<^verbatim>\<open>-\<close>.) The result is the decimal's exact value.
\<close>

definition digit_val :: "char \<Rightarrow> nat" where
  "digit_val c = of_char c - 48"

definition nat_of_digits :: "string \<Rightarrow> nat" where
  "nat_of_digits ds = foldl (\<lambda>a c. 10 * a + digit_val c) 0 ds"

definition parse_sign :: "string \<Rightarrow> bool \<times> string" where
  "parse_sign s =
     (case s of
        c # r \<Rightarrow> if c = CHR ''-'' then (True, r) else if c = CHR ''+'' then (False, r) else (False, s)
      | [] \<Rightarrow> (False, s))"

definition parse_number :: "string \<Rightarrow> (real \<times> string) option" where
  "parse_number s =
     (let ip = takeWhile isdigit s; r = dropWhile isdigit s in
      case r of
        c # r' \<Rightarrow>
          if c = CHR ''.'' then
            (let fp = takeWhile isdigit r'; r'' = dropWhile isdigit r' in
             if ip = [] \<and> fp = [] then None
             else Some (real (nat_of_digits (ip @ fp)) / 10 ^ length fp, r''))
          else if ip = [] then None else Some (real (nat_of_digits ip), r)
      | [] \<Rightarrow> if ip = [] then None else Some (real (nat_of_digits ip), r))"

definition py_float :: "string \<Rightarrow> real option" where
  "py_float s =
     (let (neg, s1) = parse_sign s in
      case parse_number s1 of
        None \<Rightarrow> None
      | Some (m, s2) \<Rightarrow>
          (let sm = (if neg then - m else m) in
           case s2 of
             [] \<Rightarrow> Some sm
           | c # s3 \<Rightarrow>
               if c = CHR ''E'' \<or> c = CHR ''e'' then
                 (let (eneg, ds) = parse_sign s3 in
                  if ds \<noteq> [] \<and> list_all isdigit ds
                  then Some (if eneg then sm / 10 ^ nat_of_digits ds else sm * 10 ^ nat_of_digits ds)
                  else None)
               else None))"

subsection \<open>The two patterns\<close>

text \<open>
  \<^verbatim>\<open>energy_pattern = ^\s*[\d.]+\s*[kMGTe]?eV\<close> and
  \<^verbatim>\<open>line_pattern = ^\s*([\d.]+)\s*([kMGT]?eV)\s+([\d.E+-]+)\s*\<close>, both used with
  \<^verbatim>\<open>match\<close> (anchored at the start of the line). Every greedy run is followed by a
  piece that cannot start with a character of the run, so backtracking into a run never
  helps and each run is the longest one; the optional unit prefix is tried first and
  dropped if \<^verbatim>\<open>eV\<close> does not follow it.
\<close>

definition in_number_class :: "char \<Rightarrow> bool" where
  "in_number_class c \<longleftrightarrow> isdigit c \<or> c = CHR ''.''"

definition in_stopping_class :: "char \<Rightarrow> bool" where
  "in_stopping_class c \<longleftrightarrow> isdigit c \<or> c \<in> set ''.E+-''"

definition match_unit :: "string \<Rightarrow> string \<Rightarrow> (string \<times> string) option" where
  "match_unit prefixes s =
     (case s of
        c # r \<Rightarrow>
          if c \<in> set prefixes \<and> startswith r ''eV'' then Some (c # ''eV'', drop 2 r)
          else if startswith s ''eV'' then Some (''eV'', drop 2 s)
          else None
      | [] \<Rightarrow> None)"

definition energy_pattern_match :: "string \<Rightarrow> bool" where
  "energy_pattern_match line =
     (let s1 = dropWhile isspace line;
          g1 = takeWhile in_number_class s1;
          s2 = dropWhile isspace (dropWhile in_number_class s1)
      in g1 \<noteq> [] \<and> match_unit ''kMGTe'' s2 \<noteq> None)"

definition line_pattern_match :: "string \<Rightarrow> (string \<times> string \<times> string) option" where
  "line_pattern_match line =
     (let s1 = dropWhile isspace line;
          g1 = takeWhile in_number_class s1;
          s2 = dropWhile isspace (dropWhile in_number_class s1)
      in if g1 = [] then None
         else case match_unit ''kMGT'' s2 of
                None \<Rightarrow> None
              | Some (g2, s3) \<Rightarrow>
                  (let s4 = dropWhile isspace s3;
                       g3 = takeWhile in_stopping_class s4
                   in if takeWhile isspace s3 = [] \<or> g3 = [] then None
                      else Some (g1, g2, g3)))"

subsection \<open>\<^verbatim>\<open>_convert_to_mev\<close>\<close>

definition conversion_factors :: "string \<rightharpoonup> real" where
  "conversion_factors =
     map_of [(''ev'', 1 / 10 ^ 6), (''kev'', 1 / 10 ^ 3), (''mev'', 1), (''gev'', 10 ^ 3), (''tev'', 10 ^ 6)]"

definition convert_to_mev :: "real \<Rightarrow> string \<Rightarrow> error + real" where
  "convert_to_mev val unit0 =
     (let unit = lower (strip unit0) in
      case conversion_factors unit of
        None \<Rightarrow> Inl (UnknownEnergyUnit unit)
      | Some factor \<Rightarrow> Inr (val * factor))"

subsection \<open>\<^verbatim>\<open>parse_srim_text\<close>\<close>

text \<open>The first index \<open>\<ge> i\<close> whose line satisfies \<open>P\<close>; \<open>i\<close> is the index of the list's head.\<close>

fun first_index :: "(nat \<Rightarrow> string \<Rightarrow> bool) \<Rightarrow> nat \<Rightarrow> string list \<Rightarrow> nat option" where
  "first_index P i [] = None"
| "first_index P i (x # xs) = (if P i x then Some i else first_index P (Suc i) xs)"

definition is_header :: "string \<Rightarrow> bool" where
  "is_header line \<longleftrightarrow> contains line ''Energy'' \<and> (contains line ''Elec'' \<or> contains line ''Electronic'')"

definition is_separator :: "string \<Rightarrow> bool" where
  "is_separator line \<longleftrightarrow> startswith (strip line) ''-'' \<or> startswith (strip line) ''=''"

text \<open>The first loop: the line after the first separator that follows the header, or
  the line after the header when no separator follows.\<close>

definition header_data_start :: "string list \<Rightarrow> nat option" where
  "header_data_start lines =
     (case first_index (\<lambda>_. is_header) 0 lines of
        None \<Rightarrow> None
      | Some i \<Rightarrow>
          (case first_index (\<lambda>_. is_separator) (i + 1) (drop (i + 1) lines) of
             Some j \<Rightarrow> Some (j + 1)
           | None \<Rightarrow> Some (i + 1)))"

definition ends_data :: "nat \<Rightarrow> nat \<Rightarrow> string \<Rightarrow> bool" where
  "ends_data data_start_idx i line =
     (let stripped = strip line in
      stripped = [] \<or>
      (startswith stripped ''---'' \<and> i > data_start_idx) \<or>
      (startswith stripped ''==='' \<and> i > data_start_idx) \<or>
      startswith stripped ''Multiply'' \<or>
      (contains stripped ''Stopping'' \<and> contains stripped ''Units''))"

definition header_data_end :: "string list \<Rightarrow> nat \<Rightarrow> nat option" where
  "header_data_end lines data_start_idx =
     first_index (ends_data data_start_idx) data_start_idx (drop data_start_idx lines)"

text \<open>The loop used when no header was found; the state is \<open>data_start_idx\<close>, the
  result is \<open>(data_start_idx, data_end_idx)\<close>.\<close>

fun scan_data :: "nat \<Rightarrow> nat option \<Rightarrow> string list \<Rightarrow> nat option \<times> nat option" where
  "scan_data i data_start_idx [] = (data_start_idx, None)"
| "scan_data i data_start_idx (line # rest) =
     (if energy_pattern_match line then
        scan_data (Suc i) (if data_start_idx = None then Some i else data_start_idx) rest
      else if data_start_idx \<noteq> None \<and> strip line \<noteq> [] then
        (if \<not> (startswith (strip line) ''-'' \<or> startswith (strip line) ''='')
         then scan_data (Suc i) data_start_idx rest
         else (data_start_idx, Some i))
      else scan_data (Suc i) data_start_idx rest)"

fun parse_rows :: "string list \<Rightarrow> error + table" where
  "parse_rows [] = Inr []"
| "parse_rows (line # rest) =
     (if strip line = [] then parse_rows rest
      else case line_pattern_match line of
             None \<Rightarrow> parse_rows rest
           | Some (g1, energy_unit, g3) \<Rightarrow>
               (case py_float g1 of
                  None \<Rightarrow> Inl (FloatSyntax g1)
                | Some energy_val \<Rightarrow>
                    (case py_float g3 of
                       None \<Rightarrow> Inl (FloatSyntax g3)
                     | Some dedx_val \<Rightarrow>
                         (case convert_to_mev energy_val energy_unit of
                            Inl e \<Rightarrow> Inl e
                          | Inr energy_mev \<Rightarrow>
                              (case parse_rows rest of
                                 Inl e \<Rightarrow> Inl e
                               | Inr rows \<Rightarrow> Inr ((energy_mev, dedx_val) # rows))))))"

definition parse_srim_text :: "string \<Rightarrow> error + table" where
  "parse_srim_text content =
     (let lines = split_lines (strip content);
          (data_start_idx, data_end_idx) =
            (case header_data_start lines of
               Some s \<Rightarrow> (Some s, header_data_end lines s)
             | None \<Rightarrow> scan_data 0 None lines)
      in case data_start_idx of
           None \<Rightarrow> Inl NoDataSection
         | Some s \<Rightarrow>
             (let e = (case data_end_idx of None \<Rightarrow> length lines | Some e \<Rightarrow> e) in
              case parse_rows (take (e - s) (drop s lines)) of
                Inl err \<Rightarrow> Inl err
              | Inr rows \<Rightarrow>
                  if length rows = 0 then Inl NoDataPoints
                  else Inr (sort_values rows)))"

text \<open>Sample texts: the specification's scenario, and a table with mixed units whose
  rows are out of order.\<close>

definition sample_text :: string where
  "sample_text = ''Energy      dE/dx Elec.'' @ [CHR 0x0A] @ ''----------'' @ [CHR 0x0A]
     @ ''1.000 MeV   5.234E+01   1.500E-02''"

definition mixed_text :: string where
  "mixed_text = '' Ion Energy   dE/dx Elec.  dE/dx Nuclear'' @ [CHR 0x0A] @ ''  ----------- ----------'' @ [CHR 0x0A]
     @ ''  2.00 MeV   3.000E+01  2.0E-02'' @ [CHR 0x0A]
     @ ''500.0 keV   4.100E+01  5.0E-02'' @ [CHR 0x0A]
     @ ''-----------------------------'' @ [CHR 0x0A]
     @ '' Multiply Stopping by        for Stopping Units''"

text \<open>A text whose only data row has a number with two dots.\<close>

definition malformed_text :: string where
  "malformed_text = ''Energy  dE/dx Elec.'' @ [CHR 0x0A] @ ''1.2.3 MeV  5.0E+00''"

section \<open>Properties of the inverse solver's control flow\<close>

lemma init_flat_curve: "init [(0, 1), (1, 1)] = Inr flat_curve"
  by (simp add: init_def sort_values_def flat_curve_def)

lemma init_falling_curve: "init [(0, 1), (1, 0)] = Inr falling_curve"
  by (simp add: init_def sort_values_def falling_curve_def)

lemma init_one_row_curve: "init [(0, 5)] = Inr one_row_curve"
  by (simp add: init_def sort_values_def one_row_curve_def)

lemma get_dedx_flat: "get_dedx flat_curve x = Num 1"
  by (simp add: get_dedx_def flat_curve_def interp1d_def Let_def np_divide_def)

lemma integrand_flat: "0 \<le> k \<Longrightarrow> integrand flat_curve k x = Num (1 / (1 + k))"
  by (simp add: integrand_def Let_def get_dedx_flat add_nonneg_pos)

lemma visible_energy_flat:
  "0 < E \<Longrightarrow> 0 \<le> k \<Longrightarrow> calculate_visible_energy quad_midpoint flat_curve E k = Inr (Num (E / (1 + k)))"
  by (simp add: calculate_visible_energy_def quad_midpoint_def integrand_flat)

lemma objective_flat:
  "0 < E \<Longrightarrow> 0 \<le> k \<Longrightarrow> objective quad_midpoint flat_curve E obs k = Inr (Num (E / (1 + k) - obs))"
  by (simp add: objective_def visible_energy_flat fsub_def)

lemma objective_cases:
  "objective quad calc E obs kb =
     (if E \<le> 0 then Inr (Num (0 - obs))
      else if kb < 0 then Inl NegativeBirksConstant
      else case quad (integrand calc kb) 0 E of
             None \<Rightarrow> Inl IntegrationFailed
           | Some v \<Rightarrow> Inr (fsub v (Num obs)))"
  by (simp add: objective_def calculate_visible_energy_def fsub_def split: option.splits)

lemma root_search_not_invalid:
  "fst (root_search brentq f a b calls) = Inl e \<Longrightarrow> \<not> is_InvalidArgument e"
  by (auto simp: root_search_def split: option.splits)


lemma root_search_calls:
  "snd (root_search brentq f a b calls) = calls @ [RootSearch a b]"
  by (simp add: root_search_def split: option.splits)




lemma bisect_hit:
  "f ((a + b) / 2) = Inr (Num 0) \<Longrightarrow> f a = Inr (Num ya) \<Longrightarrow> brentq_bisect f a b = Some ((a + b) / 2)"
  by (simp add: brentq_bisect_def numeral_eq_Suc)

text \<open>
  C5 (amended). In each of the three cases \<open>initialEnergy \<le> 0\<close>, \<open>observedEnergy \<le> 0\<close>,
  \<open>observedEnergy > initialEnergy\<close> the solver raises an InvalidArgument error with no
  objective evaluation and no root search made. These are not the only cases: past the
  three checks and the within-1e-9 shortcut, a negative \<^verbatim>\<open>kb_min\<close>, or a negative
  \<^verbatim>\<open>kb_max\<close> after the first integration came back, is rejected by the forward
  calculation's own check, which is an InvalidArgument too. With a bracket that is not
  negative (the default one is not) the three cases are exactly the InvalidArgument
  cases.
\<close>

theorem solve_kb_invalid_argument:
  "(E \<le> 0 \<or> obs \<le> 0 \<or> E < obs \<longrightarrow>
      (\<exists>e. solve_kb quad brentq calc E obs kb_min kb_max = (Inl e, []) \<and> is_InvalidArgument e))
   \<and> ((\<exists>e. fst (solve_kb quad brentq calc E obs kb_min kb_max) = Inl e \<and> is_InvalidArgument e)
        \<longleftrightarrow> (E \<le> 0 \<or> obs \<le> 0 \<or> E < obs
             \<or> (\<not> \<bar>obs - E\<bar> < 1 / 10 ^ 9 \<and>
                 (kb_min < 0 \<or> (kb_max < 0 \<and> quad (integrand calc kb_min) 0 E \<noteq> None)))))
   \<and> (0 \<le> kb_min \<and> 0 \<le> kb_max \<longrightarrow>
        ((\<exists>e. fst (solve_kb quad brentq calc E obs kb_min kb_max) = Inl e \<and> is_InvalidArgument e)
         \<longleftrightarrow> (E \<le> 0 \<or> obs \<le> 0 \<or> E < obs)))"
proof -
  have guards: "E \<le> 0 \<or> obs \<le> 0 \<or> E < obs \<longrightarrow>
      (\<exists>e. solve_kb quad brentq calc E obs kb_min kb_max = (Inl e, []) \<and> is_InvalidArgument e)"
    by (auto simp: solve_kb_def Let_def)
  have exact: "(\<exists>e. fst (solve_kb quad brentq calc E obs kb_min kb_max) = Inl e \<and> is_InvalidArgument e)
        \<longleftrightarrow> (E \<le> 0 \<or> obs \<le> 0 \<or> E < obs
             \<or> (\<not> \<bar>obs - E\<bar> < 1 / 10 ^ 9 \<and>
                 (kb_min < 0 \<or> (kb_max < 0 \<and> quad (integrand calc kb_min) 0 E \<noteq> None))))"
    apply (simp only: solve_kb_def Let_def objective_cases)
    apply (auto split: option.splits if_splits sum.splits dest: root_search_not_invalid)
    done
  from guards exact show ?thesis
    by auto
qed

theorem solve_kb_invalid_argument_witness:
  "((0::real) \<le> 0 \<or> (1::real) \<le> 0 \<or> (0::real) < 1)
   \<and> (\<exists>e. solve_kb quad_midpoint brentq_bisect flat_curve 0 1 0 (1 / 2) = (Inl e, [])
          \<and> is_InvalidArgument e)
   \<and> ((0::real) \<le> 0 \<and> (0::real) \<le> 1 / 2)
   \<and> \<not> (\<exists>e. fst (solve_kb quad_midpoint brentq_bisect flat_curve 1 (1 / 2) 0 (1 / 2)) = Inl e
            \<and> is_InvalidArgument e)"
  using solve_kb_invalid_argument [of 0 1 quad_midpoint brentq_bisect flat_curve 0 "1 / 2"]
    solve_kb_invalid_argument [of 1 "1 / 2" quad_midpoint brentq_bisect flat_curve 0 "1 / 2"]
  by simp

text \<open>
  C5 as stated fails: with initial energy 2, observed energy 1 and \<^verbatim>\<open>kb_min = -1\<close> none of
  the three cases holds, and the call still raises an InvalidArgument error ("Birks
  constant must be non-negative"), after one objective evaluation was started.
\<close>

theorem solve_kb_invalid_argument_counterexample:
  "solve_kb quad_midpoint brentq_bisect flat_curve 2 1 (- 1) (1 / 2)
     = (Inl NegativeBirksConstant, [Objective (- 1)])
   \<and> is_InvalidArgument NegativeBirksConstant
   \<and> \<not> ((2::real) \<le> 0 \<or> (1::real) \<le> 0 \<or> (2::real) < 1)"
  by (simp add: solve_kb_def objective_def calculate_visible_energy_def)



text \<open>
  C8. An observed energy above a positive initial energy, by however little, raises the
  InvalidArgument error "Observed energy cannot exceed initial energy" with nothing
  evaluated; and the call returns 0 without any evaluation (the shortcut) exactly when
  the observed energy is positive, at most the initial energy, and less than 1e-9
  below it.
\<close>

theorem solve_kb_tolerance_one_sided:
  "(0 < E \<and> E < obs \<longrightarrow>
      solve_kb quad brentq calc E obs kb_min kb_max = (Inl ObservedExceedsInitial, [])
      \<and> is_InvalidArgument ObservedExceedsInitial)
   \<and> (solve_kb quad brentq calc E obs kb_min kb_max = (Inr 0, [])
        \<longleftrightarrow> 0 < obs \<and> obs \<le> E \<and> E - obs < 1 / 10 ^ 9)"
  by (auto simp: solve_kb_def Let_def root_search_def split: sum.splits option.splits)

theorem solve_kb_tolerance_one_sided_witness:
  "(0::real) < 1 \<and> (1::real) < 1 + 1 / 10 ^ 10
   \<and> solve_kb quad_midpoint brentq_bisect flat_curve 1 (1 + 1 / 10 ^ 10) 0 (1 / 2)
       = (Inl ObservedExceedsInitial, [])
   \<and> solve_kb quad_midpoint brentq_bisect flat_curve 1 (1 - 1 / 10 ^ 10) 0 (1 / 2) = (Inr 0, [])"
  using solve_kb_tolerance_one_sided
      [of 1 "1 + 1 / 10 ^ 10" quad_midpoint brentq_bisect flat_curve 0 "1 / 2"]
    solve_kb_tolerance_one_sided
      [of 1 "1 - 1 / 10 ^ 10" quad_midpoint brentq_bisect flat_curve 0 "1 / 2"]
  by simp

section \<open>Properties of the parser\<close>

lemma match_unit_units:
  "match_unit ''kMGT'' s = Some (g2, r) \<Longrightarrow> g2 \<in> {''eV'', ''keV'', ''MeV'', ''GeV'', ''TeV''}"
  by (auto simp: match_unit_def split: list.splits if_splits)

lemma line_pattern_match_unit:
  "line_pattern_match line = Some (g1, g2, g3) \<Longrightarrow> g2 \<in> {''eV'', ''keV'', ''MeV'', ''GeV'', ''TeV''}"
  by (auto simp: line_pattern_match_def Let_def split: if_splits option.splits dest: match_unit_units)

lemma lower_strip_units:
  "lower (strip ''eV'') = ''ev''" "lower (strip ''keV'') = ''kev''" "lower (strip ''MeV'') = ''mev''"
  "lower (strip ''GeV'') = ''gev''" "lower (strip ''TeV'') = ''tev''"
  by code_simp+

lemma convert_to_mev_units:
  "convert_to_mev v ''eV'' = Inr (v * (1 / 10 ^ 6))"
  "convert_to_mev v ''keV'' = Inr (v * (1 / 10 ^ 3))"
  "convert_to_mev v ''MeV'' = Inr (v * 1)"
  "convert_to_mev v ''GeV'' = Inr (v * 10 ^ 3)"
  "convert_to_mev v ''TeV'' = Inr (v * 10 ^ 6)"
  by (simp_all add: convert_to_mev_def lower_strip_units conversion_factors_def)

lemma convert_to_mev_known:
  "g2 \<in> {''eV'', ''keV'', ''MeV'', ''GeV'', ''TeV''} \<Longrightarrow> \<exists>m. convert_to_mev v g2 = Inr m"
  using convert_to_mev_units by blast

lemma parse_rows_no_unknown_unit: "parse_rows ls \<noteq> Inl (UnknownEnergyUnit u)"
proof (induction ls)
  case Nil
  show ?case by simp
next
  case (Cons line rest)
  show ?case
  proof (cases "line_pattern_match line")
    case None
    with Cons show ?thesis by simp
  next
    case (Some g)
    obtain g1 g2 g3 where g: "g = (g1, g2, g3)" by (cases g)
    have known: "\<exists>m. convert_to_mev v g2 = Inr m" for v
      using Some g by (intro convert_to_mev_known line_pattern_match_unit) simp
    show ?thesis
    proof (cases "strip line = []")
      case True
      with Cons show ?thesis by simp
    next
      case False
      show ?thesis
      proof (cases "py_float g1")
        case None
        with False Some g show ?thesis by simp
      next
        case v: (Some v)
        show ?thesis
        proof (cases "py_float g3")
          case None
          with False Some g v show ?thesis by simp
        next
          case d: (Some d)
          from known obtain m where "convert_to_mev v g2 = Inr m" by blast
          with False Some g v d Cons show ?thesis
            by (auto split: sum.splits)
        qed
      qed
    qed
  qed
qed

lemma parse_srim_text_no_unknown_unit: "parse_srim_text content \<noteq> Inl (UnknownEnergyUnit u)"
  using parse_rows_no_unknown_unit
  by (auto simp: parse_srim_text_def Let_def split: prod.splits option.splits sum.splits if_splits)

lemma sorted_sort_values: "sorted (map fst (sort_values df))"
  by (simp add: sort_values_def)

lemma sort_values_eq_Nil: "sort_values df = [] \<longleftrightarrow> df = []"
proof -
  have "length (sort_values df) = length df"
    by (simp add: sort_values_def)
  then show ?thesis
    by (metis length_0_conv)
qed

lemma parse_srim_text_Inr:
  "parse_srim_text content = Inr df \<Longrightarrow> \<exists>rows. rows \<noteq> [] \<and> df = sort_values rows"
  by (auto simp: parse_srim_text_def Let_def split: prod.splits option.splits sum.splits if_splits)

lemma parse_srim_text_Inr_sorted: "parse_srim_text content = Inr df \<Longrightarrow> df \<noteq> [] \<and> sorted (map fst df)"
  by (auto dest!: parse_srim_text_Inr simp: sorted_sort_values sort_values_eq_Nil)

lemma matched_line_not_blank: "line_pattern_match line = Some g \<Longrightarrow> strip line \<noteq> []"
proof -
  assume "line_pattern_match line = Some g"
  then have "takeWhile in_number_class (dropWhile isspace line) \<noteq> []"
    by (auto simp: line_pattern_match_def Let_def split: if_splits)
  then have ne: "dropWhile isspace line \<noteq> []"
    by (cases "dropWhile isspace line") simp_all
  then have "\<not> isspace (hd (dropWhile isspace line))" by (rule hd_dropWhile)
  moreover have "hd (dropWhile isspace line) \<in> set (rev (dropWhile isspace line))"
    using ne by simp
  ultimately have "dropWhile isspace (rev (dropWhile isspace line)) \<noteq> []"
    by (metis dropWhile_eq_Nil_conv)
  then show ?thesis by (simp add: strip_def)
qed


subsection \<open>The sample texts, evaluated\<close>

lemma py_float_samples:
  "py_float ''1.000'' = Some 1"
  "py_float ''5.234E+01'' = Some (5234 / 100)"
  "py_float ''2.00'' = Some 2"
  "py_float ''3.000E+01'' = Some 30"
  "py_float ''500.0'' = Some 500"
  "py_float ''4.100E+01'' = Some 41"
  by (simp_all add: py_float_def parse_sign_def parse_number_def nat_of_digits_def digit_val_def
      isdigit_def)

lemma line_pattern_match_samples:
  "line_pattern_match ''1.000 MeV   5.234E+01'' = Some (''1.000'', ''MeV'', ''5.234E+01'')"
  "line_pattern_match ''1.000 MeV   5.234E+01   1.500E-02'' = Some (''1.000'', ''MeV'', ''5.234E+01'')"
  "line_pattern_match ''  2.00 MeV   3.000E+01  2.0E-02'' = Some (''2.00'', ''MeV'', ''3.000E+01'')"
  "line_pattern_match ''500.0 keV   4.100E+01  5.0E-02'' = Some (''500.0'', ''keV'', ''4.100E+01'')"
  by code_simp+

lemma parse_rows_samples:
  "parse_rows [''1.000 MeV   5.234E+01''] = Inr [(1, 5234 / 100)]"
  "parse_rows [''1.000 MeV   5.234E+01   1.500E-02''] = Inr [(1, 5234 / 100)]"
  "parse_rows [''  2.00 MeV   3.000E+01  2.0E-02'', ''500.0 keV   4.100E+01  5.0E-02'']
     = Inr [(2, 30), (1 / 2, 41)]"
  by (simp_all add: line_pattern_match_samples py_float_samples convert_to_mev_units
      matched_line_not_blank)

lemma sample_text_lines:
  "split_lines (strip sample_text)
     = [''Energy      dE/dx Elec.'', ''----------'', ''1.000 MeV   5.234E+01   1.500E-02'']"
  "header_data_start
     [''Energy      dE/dx Elec.'', ''----------'', ''1.000 MeV   5.234E+01   1.500E-02''] = Some 2"
  "header_data_end
     [''Energy      dE/dx Elec.'', ''----------'', ''1.000 MeV   5.234E+01   1.500E-02''] 2 = None"
  by code_simp+

lemma parse_sample_text: "parse_srim_text sample_text = Inr [(1, 5234 / 100)]"
  by (simp add: parse_srim_text_def sample_text_lines parse_rows_samples sort_values_def
      del: parse_rows.simps)

lemma mixed_text_lines:
  "split_lines (strip mixed_text)
     = [''Ion Energy   dE/dx Elec.  dE/dx Nuclear'', ''  ----------- ----------'',
        ''  2.00 MeV   3.000E+01  2.0E-02'', ''500.0 keV   4.100E+01  5.0E-02'',
        ''-----------------------------'', '' Multiply Stopping by        for Stopping Units'']"
  "header_data_start
     [''Ion Energy   dE/dx Elec.  dE/dx Nuclear'', ''  ----------- ----------'',
      ''  2.00 MeV   3.000E+01  2.0E-02'', ''500.0 keV   4.100E+01  5.0E-02'',
      ''-----------------------------'', '' Multiply Stopping by        for Stopping Units''] = Some 2"
  "header_data_end
     [''Ion Energy   dE/dx Elec.  dE/dx Nuclear'', ''  ----------- ----------'',
      ''  2.00 MeV   3.000E+01  2.0E-02'', ''500.0 keV   4.100E+01  5.0E-02'',
      ''-----------------------------'', '' Multiply Stopping by        for Stopping Units''] 2 = Some 4"
  by code_simp+

lemma parse_mixed_text: "parse_srim_text mixed_text = Inr [(1 / 2, 41), (2, 30)]"
  by (simp add: parse_srim_text_def mixed_text_lines parse_rows_samples sort_values_def
      del: parse_rows.simps)

subsection \<open>The claims about the parser\<close>

text \<open>
  C7. The unit converter multiplies the number by the factor of the unit: eV by 1e-6,
  keV by 1e-3, MeV by 1, GeV by 1e3, TeV by 1e6. A line matched by the data-row pattern
  whose two numbers \<^verbatim>\<open>float\<close> accepts contributes the row (number times the factor of
  its unit, first stopping value). The row \<^verbatim>\<open>1.000 MeV   5.234E+01\<close> gives (1.0, 52.34),
  the specification's scenario text gives that one row, and the row with 500.0 keV of
  the second sample gives the energy 0.5.
\<close>

theorem unit_conversion_exact:
  "convert_to_mev v ''eV'' = Inr (v * (1 / 10 ^ 6))
   \<and> convert_to_mev v ''keV'' = Inr (v * (1 / 10 ^ 3))
   \<and> convert_to_mev v ''MeV'' = Inr (v * 1)
   \<and> convert_to_mev v ''GeV'' = Inr (v * 10 ^ 3)
   \<and> convert_to_mev v ''TeV'' = Inr (v * 10 ^ 6)
   \<and> (line_pattern_match line = Some (g1, g2, g3) \<and> py_float g1 = Some energy_val
        \<and> py_float g3 = Some dedx_val \<and> parse_rows rest = Inr rows \<longrightarrow>
        (\<exists>factor. (g2, factor) \<in> set [(''eV'', 1 / 10 ^ 6), (''keV'', 1 / 10 ^ 3), (''MeV'', 1),
                                      (''GeV'', 10 ^ 3), (''TeV'', 10 ^ 6)]
           \<and> parse_rows (line # rest) = Inr ((energy_val * factor, dedx_val) # rows)))
   \<and> parse_rows [''1.000 MeV   5.234E+01''] = Inr [(1, 5234 / 100)]
   \<and> parse_srim_text sample_text = Inr [(1, 5234 / 100)]
   \<and> parse_srim_text mixed_text = Inr [(1 / 2, 41), (2, 30)]"
proof -
  have row: "\<exists>factor. (g2, factor) \<in> set [(''eV'', 1 / 10 ^ 6), (''keV'', 1 / 10 ^ 3), (''MeV'', 1),
                                      (''GeV'', 10 ^ 3), (''TeV'', 10 ^ 6)]
           \<and> parse_rows (line # rest) = Inr ((energy_val * factor, dedx_val) # rows)"
    if m: "line_pattern_match line = Some (g1, g2, g3)" and e: "py_float g1 = Some energy_val"
      and d: "py_float g3 = Some dedx_val" and r: "parse_rows rest = Inr rows"
  proof -
    from m have nb: "strip line \<noteq> []"
      by (rule matched_line_not_blank)
    from m have "g2 \<in> {''eV'', ''keV'', ''MeV'', ''GeV'', ''TeV''}"
      by (rule line_pattern_match_unit)
    then consider "g2 = ''eV''" | "g2 = ''keV''" | "g2 = ''MeV''" | "g2 = ''GeV''" | "g2 = ''TeV''"
      by auto
    then show ?thesis
    proof cases
      case 1
      with m e d r nb show ?thesis
        by (intro exI[of _ "1 / 10 ^ 6"]) (simp add: convert_to_mev_units)
    next
      case 2
      with m e d r nb show ?thesis
        by (intro exI[of _ "1 / 10 ^ 3"]) (simp add: convert_to_mev_units)
    next
      case 3
      with m e d r nb show ?thesis
        by (intro exI[of _ 1]) (simp add: convert_to_mev_units)
    next
      case 4
      with m e d r nb show ?thesis
        by (intro exI[of _ "10 ^ 3"]) (simp add: convert_to_mev_units)
    next
      case 5
      with m e d r nb show ?thesis
        by (intro exI[of _ "10 ^ 6"]) (simp add: convert_to_mev_units)
    qed
  qed
  show ?thesis
    using row by (simp only: convert_to_mev_units parse_rows_samples parse_sample_text parse_mixed_text)
      blast
qed

theorem unit_conversion_exact_witness:
  "line_pattern_match ''500.0 keV   4.100E+01  5.0E-02'' = Some (''500.0'', ''keV'', ''4.100E+01'')
   \<and> py_float ''500.0'' = Some 500 \<and> py_float ''4.100E+01'' = Some 41
   \<and> parse_rows [] = Inr []
   \<and> parse_rows [''500.0 keV   4.100E+01  5.0E-02''] = Inr [(1 / 2, 41)]"
proof -
  have m: "line_pattern_match ''500.0 keV   4.100E+01  5.0E-02'' = Some (''500.0'', ''keV'', ''4.100E+01'')"
    by (rule line_pattern_match_samples)
  have e: "py_float ''500.0'' = Some 500" and d: "py_float ''4.100E+01'' = Some 41"
    by (rule py_float_samples)+
  have r: "parse_rows [] = Inr []"
    by simp
  from unit_conversion_exact [of 0 "''500.0 keV   4.100E+01  5.0E-02''" "''500.0''" "''keV''"
      "''4.100E+01''" 500 41 "[]" "[]"] m e d r
  obtain factor where
    f: "(''keV'', factor) \<in> set [(''eV'', 1 / 10 ^ 6), (''keV'', 1 / 10 ^ 3), (''MeV'', 1),
                                 (''GeV'', 10 ^ 3), (''TeV'', 10 ^ 6 :: real)]"
    and p: "parse_rows [''500.0 keV   4.100E+01  5.0E-02''] = Inr [(500 * factor, 41)]"
    by blast
  from f have "factor = 1 / 10 ^ 3"
    by simp
  with p m e d r show ?thesis
    by simp
qed

text \<open>
  C9. Whenever the parser returns a table, the table has at least one row and its
  energies are in non-decreasing order, whatever the order of the rows in the text.
\<close>

theorem parse_srim_text_sorted_nonempty:
  "parse_srim_text content = Inr df \<Longrightarrow> df \<noteq> [] \<and> sorted (map fst df)"
  by (rule parse_srim_text_Inr_sorted)

theorem parse_srim_text_sorted_nonempty_witness:
  "parse_srim_text mixed_text = Inr [(1 / 2, 41), (2, 30)]
   \<and> [(1 / 2, 41), (2, 30 :: real)] \<noteq> ([] :: table)
   \<and> sorted (map fst [(1 / 2, 41), (2, 30 :: real)] :: real list)"
  using parse_srim_text_sorted_nonempty [OF parse_mixed_text] parse_mixed_text
  by simp

text \<open>
  C10. The unit captured by the data-row pattern is one of eV, keV, MeV, GeV, TeV, its
  stripped lower-case form is a key of the conversion table, and the parser never ends
  in the "Unknown energy unit" error.
\<close>

theorem unknown_unit_unreachable:
  "(line_pattern_match line = Some (g1, g2, g3) \<longrightarrow>
      g2 \<in> {''eV'', ''keV'', ''MeV'', ''GeV'', ''TeV''}
      \<and> conversion_factors (lower (strip g2)) \<noteq> None)
   \<and> parse_srim_text content \<noteq> Inl (UnknownEnergyUnit u)"
proof -
  have "conversion_factors (lower (strip g2)) \<noteq> None"
    if "g2 \<in> {''eV'', ''keV'', ''MeV'', ''GeV'', ''TeV''}"
    using that by (elim insertE emptyE) (simp_all add: lower_strip_units conversion_factors_def)
  then show ?thesis
    using line_pattern_match_unit [of line g1 g2 g3] parse_srim_text_no_unknown_unit [of content u]
    by blast
qed

theorem unknown_unit_unreachable_witness:
  "line_pattern_match ''1.000 MeV   5.234E+01'' = Some (''1.000'', ''MeV'', ''5.234E+01'')
   \<and> ''MeV'' \<in> {''eV'', ''keV'', ''MeV'', ''GeV'', ''TeV''}
   \<and> conversion_factors (lower (strip ''MeV'')) \<noteq> None
   \<and> parse_srim_text sample_text \<noteq> Inl (UnknownEnergyUnit ''mev'')"
  using unknown_unit_unreachable [of "''1.000 MeV   5.234E+01''" "''1.000''" "''MeV''" "''5.234E+01''"
      sample_text "''mev''"] line_pattern_match_samples(1)
  by simp

section \<open>Properties of the forward calculation\<close>

subsection \<open>Antiderivatives\<close>

lemma antiderivative_mono:
  assumes "a \<le> b" and F: "antiderivative F f a b" and G: "antiderivative G g a b"
    and le: "\<And>x y z. a \<le> x \<Longrightarrow> x \<le> b \<Longrightarrow> f x = Num y \<Longrightarrow> g x = Num z \<Longrightarrow> y \<le> z"
  shows "F b - F a \<le> G b - G a"
proof -
  have "(\<lambda>x. G x - F x) a \<le> (\<lambda>x. G x - F x) b"
  proof (rule DERIV_nonneg_imp_nondecreasing [OF \<open>a \<le> b\<close>])
    fix x assume x: "a \<le> x" "x \<le> b"
    from F x obtain y where y: "f x = Num y" "(F has_real_derivative y) (at x)"
      by (auto simp: antiderivative_def)
    from G x obtain z where z: "g x = Num z" "(G has_real_derivative z) (at x)"
      by (auto simp: antiderivative_def)
    from y(2) z(2) have "((\<lambda>x. G x - F x) has_real_derivative z - y) (at x)"
      by (auto intro!: derivative_intros)
    moreover from le [OF x y(1) z(1)] have "0 \<le> z - y" by simp
    ultimately show "\<exists>d. ((\<lambda>x. G x - F x) has_real_derivative d) (at x) \<and> 0 \<le> d"
      by blast
  qed
  then show ?thesis by simp
qed

lemma antiderivative_unique:
  assumes "a \<le> b" and "antiderivative F f a b" and "antiderivative G f a b"
  shows "F b - F a = G b - G a"
proof -
  have "F b - F a \<le> G b - G a"
    by (rule antiderivative_mono [OF assms]) simp
  moreover have "G b - G a \<le> F b - F a"
    by (rule antiderivative_mono [OF assms(1,3,2)]) simp
  ultimately show ?thesis by simp
qed

lemma integrand_Num:
  "get_dedx calc x = Num d \<Longrightarrow>
     integrand calc k x = Num (if 1 + k * d \<le> 0 then 0 else 1 / (1 + k * d))"
  by (simp add: integrand_def Let_def)

lemma integrand_zero_kb:
  "integrand calc 0 x = (case get_dedx calc x of Num d \<Rightarrow> Num 1 | _ \<Rightarrow> NaN)"
  by (cases "get_dedx calc x") (simp_all add: integrand_def Let_def)

lemma integrand_zero_kb_Num: "integrand calc 0 x = Num y \<Longrightarrow> y = 1"
  by (simp add: integrand_zero_kb split: pyfloat.splits)

lemma antiderivative_zero_kb:
  assumes "antiderivative F (integrand calc 0) a b"
  shows "antiderivative (\<lambda>x. x) (integrand calc 0) a b"
  unfolding antiderivative_def
proof (intro allI impI)
  fix x assume "a \<le> x \<and> x \<le> b"
  with assms obtain y where y: "integrand calc 0 x = Num y"
    by (auto simp: antiderivative_def)
  then have "y = 1" by (rule integrand_zero_kb_Num)
  with y show "\<exists>y. integrand calc 0 x = Num y \<and> ((\<lambda>x. x) has_real_derivative y) (at x)"
    by simp
qed

lemma visible_energy_zero_kb:
  assumes "0 < E" and q: "quad_within tol quad (integrand calc 0) 0 E"
  shows "\<exists>v. calculate_visible_energy quad calc E 0 = Inr (Num v) \<and> \<bar>v - E\<bar> \<le> tol"
proof -
  from q obtain F v where F: "antiderivative F (integrand calc 0) 0 E"
    and v: "quad (integrand calc 0) 0 E = Some (Num v)" and tol: "\<bar>v - (F E - F 0)\<bar> \<le> tol"
    by (auto simp: quad_within_def)
  from \<open>0 < E\<close> have "F E - F 0 = E - 0"
    by (intro antiderivative_unique [OF _ F antiderivative_zero_kb [OF F]]) simp
  with tol v \<open>0 < E\<close> show ?thesis
    by (simp add: calculate_visible_energy_def)
qed

lemma integrand_antimono:
  assumes "0 \<le> k1" "k1 \<le> k2" "get_dedx calc x = Num d" "0 \<le> d"
    and "integrand calc k1 x = Num y1" "integrand calc k2 x = Num y2"
  shows "y2 \<le> y1"
proof -
  have le: "1 + k1 * d \<le> 1 + k2 * d"
    using assms by (simp add: mult_right_mono)
  have pos: "0 < 1 + k1 * d"
    using assms by (simp add: add_pos_nonneg)
  from pos assms(5) have y1: "y1 = 1 / (1 + k1 * d)"
    by (simp add: integrand_Num [OF assms(3)])
  from pos le assms(6) have y2: "y2 = 1 / (1 + k2 * d)"
    by (simp add: integrand_Num [OF assms(3)])
  from le pos show ?thesis
    unfolding y1 y2 by (intro frac_le) simp_all
qed

lemma quad_midpoint_flat:
  assumes "0 \<le> k" and "0 \<le> tol"
  shows "quad_within tol quad_midpoint (integrand flat_curve k) a b"
  unfolding quad_within_def
proof (intro exI conjI)
  show "antiderivative (\<lambda>x. x / (1 + k)) (integrand flat_curve k) a b"
    using assms by (auto simp: antiderivative_def integrand_flat intro!: derivative_eq_intros)
  show "quad_midpoint (integrand flat_curve k) a b = Some (Num ((b - a) / (1 + k)))"
    using assms by (simp add: quad_midpoint_def integrand_flat)
  show "\<bar>(b - a) / (1 + k) - (b / (1 + k) - a / (1 + k))\<bar> \<le> tol"
    using assms by (simp add: diff_divide_distrib)
qed

subsection \<open>The curve with stopping power \<open>1 - E\<close>\<close>

lemma get_dedx_falling: "get_dedx falling_curve x = Num (1 - x)"
  by (simp add: get_dedx_def falling_curve_def interp1d_def Let_def np_divide_def)

lemma integrand_falling_one: "x < 2 \<Longrightarrow> integrand falling_curve 1 x = Num (1 / (2 - x))"
  by (simp add: integrand_Num [OF get_dedx_falling])

lemma antiderivative_falling_one:
  "b < 2 \<Longrightarrow> antiderivative (\<lambda>x. - ln (2 - x)) (integrand falling_curve 1) a b"
  unfolding antiderivative_def
proof (intro allI impI)
  fix x assume b: "b < 2" and "a \<le> x \<and> x \<le> b"
  then have x: "x < 2" by simp
  have "((\<lambda>x. - ln (2 - x)) has_real_derivative 1 / (2 - x)) (at x)"
    using x by (auto intro!: derivative_eq_intros simp: field_simps)
  with x show "\<exists>y. integrand falling_curve 1 x = Num y
      \<and> ((\<lambda>x. - ln (2 - x)) has_real_derivative y) (at x)"
    by (simp add: integrand_falling_one)
qed

lemma ln_16_ge_2: "2 \<le> ln (16::real)"
proof -
  have "exp (2::real) = exp 1 * exp 1"
    by (simp flip: exp_add)
  also have "\<dots> \<le> 3 * 3"
    by (intro mult_mono exp_le) simp_all
  finally have "exp (2::real) \<le> 16" by simp
  then show ?thesis
    by (simp add: ln_ge_iff)
qed

lemma falling_integral: "ln (2::real) - ln (1 / 8) = ln 16"
  using ln_divide_pos [of "2::real" "1 / 8"] by simp

lemma visible_energy_falling_zero:
  assumes "quad_within tol quad (integrand falling_curve 0) 0 (15 / 8)"
  shows "\<exists>v. calculate_visible_energy quad falling_curve (15 / 8) 0 = Inr (Num v)
           \<and> \<bar>v - 15 / 8\<bar> \<le> tol"
  using visible_energy_zero_kb [OF _ assms] by simp

lemma visible_energy_falling_one:
  assumes "quad_within tol quad (integrand falling_curve 1) 0 (15 / 8)"
  shows "\<exists>v. calculate_visible_energy quad falling_curve (15 / 8) 1 = Inr (Num v)
           \<and> \<bar>v - ln 16\<bar> \<le> tol"
proof -
  from assms obtain F v where F: "antiderivative F (integrand falling_curve 1) 0 (15 / 8)"
    and v: "quad (integrand falling_curve 1) 0 (15 / 8) = Some (Num v)"
    and tol: "\<bar>v - (F (15 / 8) - F 0)\<bar> \<le> tol"
    by (auto simp: quad_within_def)
  have "F (15 / 8) - F 0 = - ln (2 - 15 / 8) - (- ln (2 - 0))"
    by (intro antiderivative_unique [OF _ F antiderivative_falling_one]) simp_all
  then have "F (15 / 8) - F 0 = ln 16"
    by (simp add: falling_integral)
  with tol v show ?thesis
    by (simp add: calculate_visible_energy_def)
qed

lemma exact_quad_falling:
  "\<exists>quad. quad_within 0 quad (integrand falling_curve 0) 0 (15 / 8)
        \<and> quad_within 0 quad (integrand falling_curve 1) 0 (15 / 8)"
proof (intro exI conjI)
  let ?quad = "\<lambda>(f::real \<Rightarrow> pyfloat) (a::real) (b::real).
                 Some (Num (if f 0 = Num 1 then 15 / 8 else ln (16::real)))"
  have zero: "integrand falling_curve 0 x = Num 1" for x
    by (simp add: integrand_Num [OF get_dedx_falling])
  show "quad_within 0 ?quad (integrand falling_curve 0) 0 (15 / 8)"
    unfolding quad_within_def
    by (intro exI[of _ "\<lambda>x. x"] exI[of _ "15 / 8"]) (simp add: antiderivative_def zero)
  show "quad_within 0 ?quad (integrand falling_curve 1) 0 (15 / 8)"
    unfolding quad_within_def
    by (intro exI[of _ "\<lambda>x. - ln (2 - x)"] exI[of _ "ln 16"])
      (simp add: antiderivative_falling_one integrand_falling_one falling_integral)
qed

subsection \<open>The curve of a one-row table\<close>

lemma get_dedx_one_row: "get_dedx one_row_curve x = NaN"
  by (simp add: get_dedx_def one_row_curve_def interp1d_def Let_def np_divide_def searchsorted_def)

lemma integrand_one_row: "integrand one_row_curve k x = NaN"
  by (simp add: integrand_def Let_def get_dedx_one_row)

subsection \<open>The claims about the forward calculation\<close>

text \<open>
  C4 (the code departs from the identity on a one-row table). The table \<open>[(0, 5)]\<close> is
  constructed without an origin row, its interpolant divides zero by zero, and with
  \<open>kB = 0\<close> the integrand handed to the quadrature is \<^verbatim>\<open>nan\<close> at every energy instead of 1.
  For every positive initial energy the visible energy is then whatever the quadrature
  makes of a \<^verbatim>\<open>nan\<close> integrand, \<^verbatim>\<open>nan\<close> for a rule that sums integrand values, and no
  quadrature call on it is within any tolerance of an integral.
\<close>

theorem zero_quenching_one_row_table:
  assumes "init [(0, 5)] = Inr calc" and "0 < E"
  shows "integrand calc 0 = (\<lambda>x. NaN)
     \<and> calculate_visible_energy quad calc E 0
         = (case quad (\<lambda>x. NaN) 0 E of None \<Rightarrow> Inl IntegrationFailed | Some v \<Rightarrow> Inr v)
     \<and> calculate_visible_energy quad_midpoint calc E 0 = Inr NaN
     \<and> \<not> quad_within tol quad (integrand calc 0) 0 E"
proof -
  from assms(1) have calc: "calc = one_row_curve"
    by (simp add: init_one_row_curve)
  have nan: "integrand one_row_curve 0 = (\<lambda>x. NaN)"
    by (simp add: integrand_one_row fun_eq_iff)
  have "\<not> antiderivative F (integrand one_row_curve 0) 0 E" for F
    using \<open>0 < E\<close> by (auto simp: antiderivative_def nan intro!: exI[of _ 0])
  then have "\<not> quad_within tol quad (integrand one_row_curve 0) 0 E"
    by (simp add: quad_within_def)
  with \<open>0 < E\<close> nan show ?thesis
    unfolding calc by (simp add: calculate_visible_energy_def quad_midpoint_def)
qed

theorem zero_quenching_one_row_table_witness:
  "init [(0, 5)] = Inr one_row_curve \<and> (0::real) < 1
   \<and> integrand one_row_curve 0 (1 / 2) = NaN
   \<and> calculate_visible_energy quad_midpoint one_row_curve 1 0 = Inr NaN"
proof -
  have E: "(0::real) < 1" by simp
  from zero_quenching_one_row_table [OF init_one_row_curve E, of quad_midpoint 0]
  have "integrand one_row_curve 0 = (\<lambda>x. NaN)"
    and "calculate_visible_energy quad_midpoint one_row_curve 1 0 = Inr NaN"
    by blast+
  then show ?thesis
    using init_one_row_curve E by (simp add: fun_eq_iff)
qed

text \<open>
  C1 (the code departs from monotonicity on a curve whose extrapolation is negative).
  The table \<open>[(0, 1), (1, 0)]\<close> has the stopping power \<open>1 - E\<close>; at
  \<open>initialEnergy = 15/8\<close> the integral is \<open>15/8\<close> for \<open>kB = 0\<close> and \<open>ln 16 > 2\<close> for
  \<open>kB = 1\<close>. Every quadrature within 1/20 of the two integrals returns a strictly larger
  quenching factor for \<open>kB = 1\<close> than for \<open>kB = 0\<close>.
\<close>

theorem quenching_factor_not_monotone:
  assumes "init [(0, 1), (1, 0)] = Inr calc"
    and "quad_within (1 / 20) quad (integrand calc 0) 0 (15 / 8)"
    and "quad_within (1 / 20) quad (integrand calc 1) 0 (15 / 8)"
  shows "\<exists>q1 q2. calculate_quenching_factor quad calc (15 / 8) 0 = Inr (Num q1)
           \<and> calculate_quenching_factor quad calc (15 / 8) 1 = Inr (Num q2)
           \<and> q1 < q2"
proof -
  from assms(1) have calc: "calc = falling_curve"
    by (simp add: init_falling_curve)
  from visible_energy_falling_zero [OF assms(2) [unfolded calc]] obtain v0 where
    v0: "calculate_visible_energy quad falling_curve (15 / 8) 0 = Inr (Num v0)"
      "\<bar>v0 - 15 / 8\<bar> \<le> 1 / 20"
    by blast
  from visible_energy_falling_one [OF assms(3) [unfolded calc]] obtain v1 where
    v1: "calculate_visible_energy quad falling_curve (15 / 8) 1 = Inr (Num v1)"
      "\<bar>v1 - ln 16\<bar> \<le> 1 / 20"
    by blast
  from v0(2) v1(2) ln_16_ge_2 have "v0 < v1"
    by linarith
  then have "v0 / (15 / 8) < v1 / (15 / 8)"
    by (simp add: divide_strict_right_mono)
  moreover from v0(1) have "calculate_quenching_factor quad falling_curve (15 / 8) 0
      = Inr (Num (v0 / (15 / 8)))"
    by (simp add: calculate_quenching_factor_def)
  moreover from v1(1) have "calculate_quenching_factor quad falling_curve (15 / 8) 1
      = Inr (Num (v1 / (15 / 8)))"
    by (simp add: calculate_quenching_factor_def)
  ultimately show ?thesis
    unfolding calc by blast
qed

theorem quenching_factor_not_monotone_witness:
  "init [(0, 1), (1, 0)] = Inr falling_curve
   \<and> (\<exists>quad. quad_within (1 / 20) quad (integrand falling_curve 0) 0 (15 / 8)
          \<and> quad_within (1 / 20) quad (integrand falling_curve 1) 0 (15 / 8)
          \<and> (\<exists>q1 q2. calculate_quenching_factor quad falling_curve (15 / 8) 0 = Inr (Num q1)
                \<and> calculate_quenching_factor quad falling_curve (15 / 8) 1 = Inr (Num q2)
                \<and> q1 < q2))"
proof -
  from exact_quad_falling obtain quad where
    "quad_within 0 quad (integrand falling_curve 0) 0 (15 / 8)"
    and "quad_within 0 quad (integrand falling_curve 1) 0 (15 / 8)"
    by blast
  then have q0: "quad_within (1 / 20) quad (integrand falling_curve 0) 0 (15 / 8)"
    and q1: "quad_within (1 / 20) quad (integrand falling_curve 1) 0 (15 / 8)"
    by (auto simp: quad_within_def intro: order_trans)
  from quenching_factor_not_monotone [OF init_falling_curve q0 q1] q0 q1 init_falling_curve
  show ?thesis
    by blast
qed

text \<open>
  C2 (the code departs from its documented range). On the same curve, with
  \<open>initialEnergy = 15/8\<close> and \<open>kB = 1\<close>, every quadrature within 1/20 of the integral
  returns a quenching factor above 1.
\<close>

theorem quenching_factor_exceeds_one:
  assumes "init [(0, 1), (1, 0)] = Inr calc"
    and "quad_within (1 / 20) quad (integrand calc 1) 0 (15 / 8)"
  shows "\<exists>q. calculate_quenching_factor quad calc (15 / 8) 1 = Inr (Num q) \<and> 1 < q"
proof -
  from assms(1) have calc: "calc = falling_curve"
    by (simp add: init_falling_curve)
  from visible_energy_falling_one [OF assms(2) [unfolded calc]] obtain v1 where
    v1: "calculate_visible_energy quad falling_curve (15 / 8) 1 = Inr (Num v1)"
      "\<bar>v1 - ln 16\<bar> \<le> 1 / 20"
    by blast
  from v1(2) ln_16_ge_2 have "15 / 8 < v1"
    by linarith
  then have "1 < v1 / (15 / 8)"
    by simp
  moreover from v1(1) have "calculate_quenching_factor quad falling_curve (15 / 8) 1
      = Inr (Num (v1 / (15 / 8)))"
    by (simp add: calculate_quenching_factor_def)
  ultimately show ?thesis
    unfolding calc by blast
qed

theorem quenching_factor_exceeds_one_witness:
  "init [(0, 1), (1, 0)] = Inr falling_curve
   \<and> (\<exists>quad. quad_within (1 / 20) quad (integrand falling_curve 1) 0 (15 / 8)
          \<and> (\<exists>q. calculate_quenching_factor quad falling_curve (15 / 8) 1 = Inr (Num q) \<and> 1 < q))"
proof -
  from exact_quad_falling obtain quad where
    "quad_within 0 quad (integrand falling_curve 1) 0 (15 / 8)"
    by blast
  then have q: "quad_within (1 / 20) quad (integrand falling_curve 1) 0 (15 / 8)"
    by (auto simp: quad_within_def intro: order_trans)
  from quenching_factor_exceeds_one [OF init_falling_curve q] q init_falling_curve
  show ?thesis
    by blast
qed

section \<open>Round trip through the inverse solver\<close>

lemma decreasing_defined:
  assumes "strictly_decreasing_between V a b" and "a < b" and "a \<le> k" and "k \<le> b"
  shows "\<exists>w. V k = Inr (Num w)"
proof (cases "k < b")
  case True
  with assms show ?thesis
    unfolding strictly_decreasing_between_def by blast
next
  case False
  with assms have "k = b" by simp
  with assms show ?thesis
    unfolding strictly_decreasing_between_def by blast
qed

lemma decreasing_less:
  assumes "strictly_decreasing_between V a b" and "a \<le> k1" and "k1 < k2" and "k2 \<le> b"
    and "V k1 = Inr (Num v1)" and "V k2 = Inr (Num v2)"
  shows "v2 < v1"
  using assms unfolding strictly_decreasing_between_def by fastforce

lemma sign_change_near_root:
  assumes dec: "strictly_decreasing_between V a b"
    and r: "a \<le> r" "r \<le> b" "V r = Inr (Num v)"
    and x: "a \<le> x" "x \<le> b" "V x = Inr (Num wx)"
    and p: "a \<le> p" "p \<le> b" "V p = Inr (Num wp)"
    and sign: "(wx - v) * (wp - v) \<le> 0"
  shows "\<bar>x - r\<bar> \<le> \<bar>p - x\<bar>"
proof -
  consider "x < r" | "x = r" | "r < x" by linarith
  then show ?thesis
  proof cases
    case 1
    then have "v < wx"
      using decreasing_less [OF dec x(1) _ r(2) x(3) r(3)] by simp
    with sign have "wp - v \<le> 0"
      by (simp add: mult_le_0_iff)
    have "\<not> p < r"
    proof
      assume "p < r"
      then have "v < wp"
        using decreasing_less [OF dec p(1) _ r(2) p(3) r(3)] by simp
      with \<open>wp - v \<le> 0\<close> show False by simp
    qed
    with 1 show ?thesis by simp
  next
    case 2
    then show ?thesis by simp
  next
    case 3
    then have "wx < v"
      using decreasing_less [OF dec r(1) _ x(2) r(3) x(3)] by simp
    with sign have "0 \<le> wp - v"
      by (simp add: mult_le_0_iff)
    have "\<not> r < p"
    proof
      assume "r < p"
      then have "wp < v"
        using decreasing_less [OF dec r(1) _ p(2) r(3) p(3)] by simp
      with \<open>0 \<le> wp - v\<close> show False by simp
    qed
    with 3 show ?thesis by simp
  qed
qed

lemma objective_Inr:
  "calculate_visible_energy quad calc E k = Inr (Num w)
     \<Longrightarrow> objective quad calc E obs k = Inr (Num (w - obs))"
  by (simp add: objective_def fsub_def)

lemma fsub_Num_iff: "fsub w (Num obs) = Num y \<longleftrightarrow> (\<exists>r. w = Num r \<and> y = r - obs)"
  by (cases w) (auto simp: fsub_def)

lemma objective_Inr_iff:
  "objective quad calc E obs k = Inr (Num y)
     \<longleftrightarrow> (\<exists>w. calculate_visible_energy quad calc E k = Inr (Num w) \<and> y = w - obs)"
  by (auto simp: objective_def fsub_Num_iff split: sum.splits)


lemma decreasing_flat:
  "0 < E \<Longrightarrow> strictly_decreasing_between (calculate_visible_energy quad_midpoint flat_curve E) 0 b"
  unfolding strictly_decreasing_between_def
proof (intro allI impI)
  fix k1 k2 :: real
  assume E: "0 < E" and k: "0 \<le> k1 \<and> k1 < k2 \<and> k2 \<le> b"
  then have "E / (1 + k2) < E / (1 + k1)"
    by (simp add: divide_strict_left_mono)
  with E k show "\<exists>v1 v2. calculate_visible_energy quad_midpoint flat_curve E k1 = Inr (Num v1)
      \<and> calculate_visible_energy quad_midpoint flat_curve E k2 = Inr (Num v2) \<and> v2 < v1"
    by (simp add: visible_energy_flat)
qed

text \<open>
  C3 (amended). Let \<open>initialEnergy > 0\<close>, \<open>kB\<close> in \<open>[0, 0.5)\<close> and
  \<open>v = visibleEnergy(initialEnergy, kB)\<close> with \<open>0 < v \<le> initialEnergy\<close>. If \<open>v\<close> is less
  than 1e-9 below the initial energy, the solver returns 0 at once, whatever \<open>kB\<close> was.
  Otherwise, if the computed visible energy is strictly decreasing in kB over the
  default bracket and Brent's method meets its tolerance on the call, the solver
  succeeds after evaluating the two endpoints and returns a value within 1e-6 of \<open>kB\<close>.
\<close>

theorem solve_kb_round_trip:
  assumes E: "0 < E" and kB: "0 \<le> kB" "kB < 1 / 2"
    and fwd: "calculate_visible_energy quad calc E kB = Inr (Num v)"
    and v: "0 < v" "v \<le> E"
  shows "(E - v < 1 / 10 ^ 9 \<longrightarrow> solve_kb_default quad brentq calc E v = (Inr 0, []))
     \<and> (1 / 10 ^ 9 \<le> E - v
          \<and> strictly_decreasing_between (calculate_visible_energy quad calc E) 0 (1 / 2)
          \<and> brentq_meets_tolerance brentq (objective quad calc E v) 0 (1 / 2)
         \<longrightarrow> (\<exists>x. solve_kb_default quad brentq calc E v
                     = (Inr x, [Objective 0, Objective (1 / 2), RootSearch 0 (1 / 2)])
                  \<and> \<bar>x - kB\<bar> \<le> 1 / 10 ^ 6))"
proof (intro conjI impI)
  assume "E - v < 1 / 10 ^ 9"
  with E v show "solve_kb_default quad brentq calc E v = (Inr 0, [])"
    by (simp add: solve_kb_default_def solve_kb_def Let_def)
next
  let ?V = "calculate_visible_energy quad calc E"
  let ?f = "objective quad calc E v"
  assume "1 / 10 ^ 9 \<le> E - v \<and> strictly_decreasing_between ?V 0 (1 / 2)
          \<and> brentq_meets_tolerance brentq ?f 0 (1 / 2)"
  then have far: "1 / 10 ^ 9 \<le> E - v" and dec: "strictly_decreasing_between ?V 0 (1 / 2)"
    and brent: "brentq_meets_tolerance brentq ?f 0 (1 / 2)"
    by simp_all
  from decreasing_defined [OF dec, of 0] obtain w0 where w0: "?V 0 = Inr (Num w0)" by auto
  from decreasing_defined [OF dec, of "1 / 2"] obtain wh where wh: "?V (1 / 2) = Inr (Num wh)" by auto
  have "wh < v"
    using decreasing_less [OF dec kB(1) kB(2) _ fwd wh] by simp
  have "v \<le> w0"
  proof (cases "kB = 0")
    case True
    with fwd w0 show ?thesis by simp
  next
    case False
    with kB have "0 < kB" by simp
    from decreasing_less [OF dec _ this _ w0 fwd] kB show ?thesis by simp
  qed
  have prod: "\<not> 0 < (w0 - v) * (wh - v)"
    using \<open>wh < v\<close> \<open>v \<le> w0\<close> by (simp add: zero_less_mult_iff)
  from brent obtain x p y yp where
    ret: "brentq ?f 0 (1 / 2) = Some x"
    and x: "0 \<le> x" "x \<le> 1 / 2" and p: "0 \<le> p" "p \<le> 1 / 2"
    and close: "\<bar>p - x\<bar> \<le> 1 / 10 ^ 8 + \<bar>x\<bar> / 10 ^ 8"
    and fx: "?f x = Inr (Num y)" and fp: "?f p = Inr (Num yp)" and sign: "y * yp \<le> 0"
    by (auto simp: brentq_meets_tolerance_def)
  from fx obtain wx where wx: "?V x = Inr (Num wx)" "y = wx - v"
    by (auto simp: objective_Inr_iff)
  from fp obtain wp where wp: "?V p = Inr (Num wp)" "yp = wp - v"
    by (auto simp: objective_Inr_iff)
  have "\<bar>x - kB\<bar> \<le> \<bar>p - x\<bar>"
    using sign_change_near_root [OF dec kB(1) _ fwd x wx(1) p wp(1)] kB(2) sign wx(2) wp(2)
    by simp
  also note close
  also have "1 / 10 ^ 8 + \<bar>x\<bar> / 10 ^ 8 \<le> (1 / 10 ^ 6 :: real)"
    using x by simp
  finally have near: "\<bar>x - kB\<bar> \<le> 1 / 10 ^ 6" .
  have "solve_kb_default quad brentq calc E v
          = (Inr x, [Objective 0, Objective (1 / 2), RootSearch 0 (1 / 2)])"
    using E v far prod ret
    by (simp add: solve_kb_default_def solve_kb_def Let_def objective_Inr [OF w0]
        objective_Inr [OF wh] root_search_def)
  with near show "\<exists>x. solve_kb_default quad brentq calc E v
                     = (Inr x, [Objective 0, Objective (1 / 2), RootSearch 0 (1 / 2)])
                  \<and> \<bar>x - kB\<bar> \<le> 1 / 10 ^ 6"
    by blast
qed


theorem solve_kb_round_trip_witness:
  "calculate_visible_energy quad_midpoint flat_curve 1 (1 / 4) = Inr (Num (4 / 5))
   \<and> strictly_decreasing_between (calculate_visible_energy quad_midpoint flat_curve 1) 0 (1 / 2)
   \<and> brentq_meets_tolerance brentq_bisect (objective quad_midpoint flat_curve 1 (4 / 5)) 0 (1 / 2)
   \<and> (\<exists>x. solve_kb_default quad_midpoint brentq_bisect flat_curve 1 (4 / 5)
            = (Inr x, [Objective 0, Objective (1 / 2), RootSearch 0 (1 / 2)])
          \<and> \<bar>x - 1 / 4\<bar> \<le> 1 / 10 ^ 6)"
proof -
  have fwd: "calculate_visible_energy quad_midpoint flat_curve 1 (1 / 4) = Inr (Num (4 / 5))"
    by (simp add: visible_energy_flat)
  have dec: "strictly_decreasing_between (calculate_visible_energy quad_midpoint flat_curve 1) 0 (1 / 2)"
    by (rule decreasing_flat) simp
  have f0: "objective quad_midpoint flat_curve 1 (4 / 5) 0 = Inr (Num (1 / 5))"
    and fm: "objective quad_midpoint flat_curve 1 (4 / 5) (1 / 4) = Inr (Num 0)"
    by (simp_all add: objective_flat)
  have root: "brentq_bisect (objective quad_midpoint flat_curve 1 (4 / 5)) 0 (1 / 2) = Some (1 / 4)"
    using bisect_hit [of "objective quad_midpoint flat_curve 1 (4 / 5)" 0 "1 / 2", OF _ f0] fm
    by simp
  have brent: "brentq_meets_tolerance brentq_bisect (objective quad_midpoint flat_curve 1 (4 / 5)) 0 (1 / 2)"
    unfolding brentq_meets_tolerance_def
    by (intro exI[of _ "1 / 4"] exI[of _ 0]) (simp add: root fm)
  from solve_kb_round_trip [OF _ _ _ fwd, of brentq_bisect] dec brent fwd show ?thesis
    by simp
qed

text \<open>
  C3 as stated fails where the shortcut fires: on the curve of constant stopping power 1,
  with \<open>initialEnergy = 1e-9\<close> and \<open>kB = 0.3\<close>, the integration is exact, the visible
  energy lies less than 1e-9 below the initial energy, and the solver returns 0, which
  is not within 1e-6 of 0.3.
\<close>

theorem solve_kb_round_trip_counterexample:
  "init [(0, 1), (1, 1)] = Inr flat_curve
   \<and> quad_within 0 quad_midpoint (integrand flat_curve (3 / 10)) 0 (1 / 10 ^ 9)
   \<and> calculate_visible_energy quad_midpoint flat_curve (1 / 10 ^ 9) (3 / 10) = Inr (Num (1 / (13 * 10 ^ 8)))
   \<and> solve_kb_default quad_midpoint brentq_bisect flat_curve (1 / 10 ^ 9) (1 / (13 * 10 ^ 8)) = (Inr 0, [])
   \<and> \<not> \<bar>0 - 3 / 10\<bar> \<le> (1 / 10 ^ 6 :: real)"
proof (intro conjI)
  show "init [(0, 1), (1, 1)] = Inr flat_curve"
    by (rule init_flat_curve)
  show "quad_within 0 quad_midpoint (integrand flat_curve (3 / 10)) 0 (1 / 10 ^ 9)"
    by (rule quad_midpoint_flat) simp_all
  show "calculate_visible_energy quad_midpoint flat_curve (1 / 10 ^ 9) (3 / 10) = Inr (Num (1 / (13 * 10 ^ 8)))"
    by (simp add: visible_energy_flat)
  show "solve_kb_default quad_midpoint brentq_bisect flat_curve (1 / 10 ^ 9) (1 / (13 * 10 ^ 8)) = (Inr 0, [])"
    by (simp add: solve_kb_default_def solve_kb_def Let_def)
  show "\<not> \<bar>0 - 3 / 10\<bar> \<le> (1 / 10 ^ 6 :: real)"
    by simp
qed

section \<open>Further properties\<close>

text \<open>
  X1. A non-positive initial energy gives the visible energy 0 and the quenching factor 0,
  for every kB (the check of kB comes second, so also for a negative one).
\<close>

theorem visible_energy_boundary:
  "E \<le> 0 \<Longrightarrow> calculate_visible_energy quad calc E kb = Inr (Num 0)
     \<and> calculate_quenching_factor quad calc E kb = Inr (Num 0)"
  by (simp add: calculate_visible_energy_def calculate_quenching_factor_def)

theorem visible_energy_boundary_witness:
  "(0::real) \<le> 0
   \<and> calculate_visible_energy quad_midpoint flat_curve 0 (- 1) = Inr (Num 0)
   \<and> calculate_quenching_factor quad_midpoint flat_curve 0 (- 1) = Inr (Num 0)"
  using visible_energy_boundary [of 0 quad_midpoint flat_curve "- 1"]
  by simp

text \<open>
  X2. With the observed energy equal to a positive initial energy the solver returns
  exactly 0, without evaluating anything.
\<close>

theorem solve_kb_observed_equals_initial:
  "0 < E \<Longrightarrow> solve_kb quad brentq calc E E kb_min kb_max = (Inr 0, [])"
  by (simp add: solve_kb_def)

theorem solve_kb_observed_equals_initial_witness:
  "(0::real) < 1 \<and> solve_kb quad_midpoint brentq_bisect flat_curve 1 1 0 (1 / 2) = (Inr 0, [])"
  using solve_kb_observed_equals_initial [of 1 quad_midpoint brentq_bisect flat_curve 0 "1 / 2"]
  by simp

text \<open>
  X3. A text without a header line and without a line matching the energy pattern is
  rejected with the error "Could not find data section".
\<close>

lemma scan_data_no_match:
  "\<forall>line \<in> set ls. \<not> energy_pattern_match line \<Longrightarrow> scan_data i None ls = (None, None)"
  by (induction ls arbitrary: i) simp_all

theorem parse_no_data_section:
  "header_data_start (split_lines (strip content)) = None
   \<Longrightarrow> \<forall>line \<in> set (split_lines (strip content)). \<not> energy_pattern_match line
   \<Longrightarrow> parse_srim_text content = Inl NoDataSection"
  by (simp add: parse_srim_text_def scan_data_no_match)

theorem parse_no_data_section_witness:
  "header_data_start (split_lines (strip ''no table here'')) = None
   \<and> \<not> energy_pattern_match ''no table here''
   \<and> parse_srim_text ''no table here'' = Inl NoDataSection"
proof -
  have h: "header_data_start (split_lines (strip ''no table here'')) = None"
    and l: "split_lines (strip ''no table here'') = [''no table here'']"
    and e: "\<not> energy_pattern_match ''no table here''"
    by code_simp+
  from l e have "\<forall>line \<in> set (split_lines (strip ''no table here'')). \<not> energy_pattern_match line"
    by simp
  from parse_no_data_section [OF h this] h e show ?thesis
    by simp
qed

text \<open>
  X4. A data row whose number has two dots matches the data-row pattern, and
  \<^verbatim>\<open>float\<close> rejects it: the parser ends in the ValueError of \<^verbatim>\<open>float\<close>, which is none of
  its own two errors.
\<close>

lemma malformed_text_lines: "split_lines (strip malformed_text)
    = [''Energy  dE/dx Elec.'', ''1.2.3 MeV  5.0E+00'']"
  "header_data_start [''Energy  dE/dx Elec.'', ''1.2.3 MeV  5.0E+00''] = Some (Suc 0)"
  "header_data_end [''Energy  dE/dx Elec.'', ''1.2.3 MeV  5.0E+00''] (Suc 0) = None"
  "line_pattern_match ''1.2.3 MeV  5.0E+00'' = Some (''1.2.3'', ''MeV'', ''5.0E+00'')"
  "strip ''1.2.3 MeV  5.0E+00'' \<noteq> []"
  by code_simp+

lemma py_float_two_dots: "py_float ''1.2.3'' = None"
  by (simp add: py_float_def parse_sign_def parse_number_def nat_of_digits_def digit_val_def isdigit_def)

theorem parse_float_syntax_error:
  "parse_srim_text malformed_text = Inl (FloatSyntax ''1.2.3'')"
  by (simp add: parse_srim_text_def malformed_text_lines py_float_two_dots)

text \<open>
  X5. With exact integration over \<open>[0, E]\<close>, \<open>E > 0\<close>, and a stopping power that is a
  positive number inside the interval, the visible energy is strictly decreasing in kB
  on every bracket of non-negative kB.
\<close>

lemma integrand_strict_antimono:
  assumes "0 \<le> k1" "k1 < k2" "get_dedx calc x = Num d" "0 < d"
    and "integrand calc k1 x = Num y1" "integrand calc k2 x = Num y2"
  shows "y2 < y1"
proof -
  have less: "1 + k1 * d < 1 + k2 * d"
    using assms by simp
  have pos: "0 < 1 + k1 * d"
    using assms by (simp add: add_pos_nonneg)
  from pos assms(5) have y1: "y1 = 1 / (1 + k1 * d)"
    by (simp add: integrand_Num [OF assms(3)])
  from pos less assms(6) have y2: "y2 = 1 / (1 + k2 * d)"
    by (simp add: integrand_Num [OF assms(3)])
  from less pos show ?thesis
    unfolding y1 y2 by (intro frac_less2) simp_all
qed

lemma antiderivative_strict_mono:
  assumes "a < b" and F: "antiderivative F f a b" and G: "antiderivative G g a b"
    and less: "\<And>x y z. a < x \<Longrightarrow> x < b \<Longrightarrow> f x = Num y \<Longrightarrow> g x = Num z \<Longrightarrow> y < z"
  shows "F b - F a < G b - G a"
proof -
  have deriv: "\<exists>y z. f x = Num y \<and> g x = Num z
      \<and> ((\<lambda>x. G x - F x) has_real_derivative z - y) (at x)" if "a \<le> x" "x \<le> b" for x
  proof -
    from F that obtain y where y: "f x = Num y" "(F has_real_derivative y) (at x)"
      by (auto simp: antiderivative_def)
    from G that obtain z where z: "g x = Num z" "(G has_real_derivative z) (at x)"
      by (auto simp: antiderivative_def)
    from y(2) z(2) have "((\<lambda>x. G x - F x) has_real_derivative z - y) (at x)"
      by (auto intro!: derivative_intros)
    with y(1) z(1) show ?thesis by blast
  qed
  have "(\<lambda>x. G x - F x) a < (\<lambda>x. G x - F x) b"
  proof (rule DERIV_pos_imp_increasing_open [OF \<open>a < b\<close>])
    fix x assume x: "a < x" "x < b"
    with deriv [of x] obtain y z where "f x = Num y" "g x = Num z"
      "((\<lambda>x. G x - F x) has_real_derivative z - y) (at x)"
      by auto
    with less [OF x, of y z]
    show "\<exists>d. ((\<lambda>x. G x - F x) has_real_derivative d) (at x) \<and> 0 < d"
      by (intro exI[of _ "z - y"]) simp
  next
    have "isCont (\<lambda>x. G x - F x) x" if "x \<in> {a..b}" for x
    proof -
      from deriv [of x] that obtain d where "((\<lambda>x. G x - F x) has_real_derivative d) (at x)"
        by auto
      then show ?thesis by (rule DERIV_isCont)
    qed
    then show "continuous_on {a..b} (\<lambda>x. G x - F x)"
      by (intro continuous_at_imp_continuous_on) simp
  qed
  then show ?thesis by simp
qed

theorem exact_integration_strictly_decreasing:
  assumes "0 < E" and "0 \<le> a"
    and pos: "\<forall>x. 0 < x \<and> x < E \<longrightarrow> (\<exists>d. get_dedx calc x = Num d \<and> 0 < d)"
    and exact: "\<forall>k. a \<le> k \<and> k \<le> b \<longrightarrow> quad_within 0 quad (integrand calc k) 0 E"
  shows "strictly_decreasing_between (calculate_visible_energy quad calc E) a b"
  unfolding strictly_decreasing_between_def
proof (intro allI impI)
  fix k1 k2 assume k: "a \<le> k1 \<and> k1 < k2 \<and> k2 \<le> b"
  from k have "a \<le> k1 \<and> k1 \<le> b" and "a \<le> k2 \<and> k2 \<le> b"
    by simp_all
  with exact have q1: "quad_within 0 quad (integrand calc k1) 0 E"
    and q2: "quad_within 0 quad (integrand calc k2) 0 E"
    by blast+
  from q1 obtain F1 v1 where F1: "antiderivative F1 (integrand calc k1) 0 E"
    and v1: "quad (integrand calc k1) 0 E = Some (Num v1)" "v1 = F1 E - F1 0"
    by (auto simp: quad_within_def)
  from q2 obtain F2 v2 where F2: "antiderivative F2 (integrand calc k2) 0 E"
    and v2: "quad (integrand calc k2) 0 E = Some (Num v2)" "v2 = F2 E - F2 0"
    by (auto simp: quad_within_def)
  have "F2 E - F2 0 < F1 E - F1 0"
  proof (rule antiderivative_strict_mono [OF \<open>0 < E\<close> F2 F1])
    fix x y z assume x: "0 < x" "x < E"
      and y: "integrand calc k2 x = Num y" and z: "integrand calc k1 x = Num z"
    from pos x obtain d where d: "get_dedx calc x = Num d" "0 < d"
      by blast
    from k \<open>0 \<le> a\<close> have "0 \<le> k1" "k1 < k2"
      by simp_all
    then show "y < z"
      using d z y by (rule integrand_strict_antimono)
  qed
  with v1 v2 k \<open>0 < E\<close> \<open>0 \<le> a\<close>
  show "\<exists>v1 v2. calculate_visible_energy quad calc E k1 = Inr (Num v1)
          \<and> calculate_visible_energy quad calc E k2 = Inr (Num v2) \<and> v2 < v1"
    by (simp add: calculate_visible_energy_def)
qed

theorem exact_integration_strictly_decreasing_witness:
  "(\<forall>x. get_dedx flat_curve x = Num 1)
   \<and> quad_within 0 quad_midpoint (integrand flat_curve (1 / 4)) 0 1
   \<and> strictly_decreasing_between (calculate_visible_energy quad_midpoint flat_curve 1) 0 (1 / 2)"
proof -
  have pos: "\<forall>x. 0 < x \<and> x < 1 \<longrightarrow> (\<exists>d. get_dedx flat_curve x = Num d \<and> 0 < d)"
    by (simp add: get_dedx_flat)
  have exact: "\<forall>k. 0 \<le> k \<and> k \<le> 1 / 2 \<longrightarrow> quad_within 0 quad_midpoint (integrand flat_curve k) 0 1"
    by (simp add: quad_midpoint_flat)
  have one: "quad_within 0 quad_midpoint (integrand flat_curve (1 / 4)) 0 1"
    by (rule quad_midpoint_flat) simp_all
  from exact_integration_strictly_decreasing [OF _ _ pos exact] one show ?thesis
    by (simp add: get_dedx_flat)
qed

text \<open>
  X6. Where the quadrature call at \<open>kB = 0\<close> is within \<open>tol\<close> of the integral (which
  requires the interpolated stopping power to be a number on \<open>[0, E]\<close>, so that the
  integrand is 1 there), the visible energy is within \<open>tol\<close> of the positive initial
  energy.
\<close>

theorem zero_quenching_identity:
  assumes "0 < E" and "quad_within tol quad (integrand calc 0) 0 E"
  shows "\<exists>v. calculate_visible_energy quad calc E 0 = Inr (Num v) \<and> \<bar>v - E\<bar> \<le> tol"
  by (rule visible_energy_zero_kb [OF assms])

theorem zero_quenching_identity_witness:
  "(0::real) < 2
   \<and> quad_within (1 / 10 ^ 6) quad_midpoint (integrand flat_curve 0) 0 2
   \<and> (\<exists>v. calculate_visible_energy quad_midpoint flat_curve 2 0 = Inr (Num v)
         \<and> \<bar>v - 2\<bar> \<le> 1 / 10 ^ 6)"
proof -
  have q: "quad_within (1 / 10 ^ 6) quad_midpoint (integrand flat_curve 0) 0 2"
    by (rule quad_midpoint_flat) simp_all
  from zero_quenching_identity [OF _ q] q show ?thesis
    by simp
qed

text \<open>
  X7. Where the interpolated stopping power is a non-negative number on \<open>[0, E]\<close>,
  \<open>E > 0\<close>, and the two quadrature calls are within \<open>t1\<close> and \<open>t2\<close> of the integrals (which
  requires the integrands to have antiderivatives, so not across a jump of the curve),
  the quenching factor for the larger kB exceeds the one for the smaller kB by at most
  \<open>(t1 + t2) / E\<close>.
\<close>

theorem quenching_factor_monotone:
  assumes "0 < E" and "0 \<le> kB1" and "kB1 < kB2"
    and nonneg: "\<forall>x. 0 \<le> x \<and> x \<le> E \<longrightarrow> (\<exists>d. get_dedx calc x = Num d \<and> 0 \<le> d)"
    and q1: "quad_within t1 quad (integrand calc kB1) 0 E"
    and q2: "quad_within t2 quad (integrand calc kB2) 0 E"
  shows "\<exists>q1 q2. calculate_quenching_factor quad calc E kB1 = Inr (Num q1)
           \<and> calculate_quenching_factor quad calc E kB2 = Inr (Num q2)
           \<and> q2 \<le> q1 + (t1 + t2) / E"
proof -
  from q1 obtain F1 v1 where F1: "antiderivative F1 (integrand calc kB1) 0 E"
    and v1: "quad (integrand calc kB1) 0 E = Some (Num v1)" and e1: "\<bar>v1 - (F1 E - F1 0)\<bar> \<le> t1"
    by (auto simp: quad_within_def)
  from q2 obtain F2 v2 where F2: "antiderivative F2 (integrand calc kB2) 0 E"
    and v2: "quad (integrand calc kB2) 0 E = Some (Num v2)" and e2: "\<bar>v2 - (F2 E - F2 0)\<bar> \<le> t2"
    by (auto simp: quad_within_def)
  have "F2 E - F2 0 \<le> F1 E - F1 0"
  proof (rule antiderivative_mono [OF _ F2 F1])
    show "0 \<le> E" using \<open>0 < E\<close> by simp
  next
    fix x y z assume x: "0 \<le> x" "x \<le> E"
      and y: "integrand calc kB2 x = Num y" and z: "integrand calc kB1 x = Num z"
    from nonneg x obtain d where d: "get_dedx calc x = Num d" "0 \<le> d"
      by blast
    from assms(2,3) have "0 \<le> kB1" "kB1 \<le> kB2"
      by simp_all
    then show "y \<le> z"
      using d z y by (rule integrand_antimono)
  qed
  with e1 e2 have "v2 \<le> v1 + (t1 + t2)"
    by linarith
  then have "v2 / E \<le> (v1 + (t1 + t2)) / E"
    using \<open>0 < E\<close> by (simp add: divide_right_mono)
  then have "v2 / E \<le> v1 / E + (t1 + t2) / E"
    by (simp add: add_divide_distrib)
  with v1 v2 assms(1,2,3) show ?thesis
    by (simp add: calculate_quenching_factor_def calculate_visible_energy_def)
qed

theorem quenching_factor_monotone_witness:
  "(\<forall>x. get_dedx flat_curve x = Num 1)
   \<and> quad_within 0 quad_midpoint (integrand flat_curve 0) 0 1
   \<and> quad_within 0 quad_midpoint (integrand flat_curve 1) 0 1
   \<and> (\<exists>q1 q2. calculate_quenching_factor quad_midpoint flat_curve 1 0 = Inr (Num q1)
         \<and> calculate_quenching_factor quad_midpoint flat_curve 1 1 = Inr (Num q2)
         \<and> q2 \<le> q1 + (0 + 0) / 1)"
proof -
  have q0: "quad_within 0 quad_midpoint (integrand flat_curve 0) 0 1"
    and q1: "quad_within 0 quad_midpoint (integrand flat_curve 1) 0 1"
    by (rule quad_midpoint_flat; simp)+
  have nonneg: "\<forall>x. 0 \<le> x \<and> x \<le> 1 \<longrightarrow> (\<exists>d. get_dedx flat_curve x = Num d \<and> 0 \<le> d)"
    by (simp add: get_dedx_flat)
  from quenching_factor_monotone [OF _ _ _ nonneg q0 q1] q0 q1 show ?thesis
    by (simp add: get_dedx_flat)
qed

text \<open>
  X8. Above a repeated last energy the interpolant is infinite: on the curve with the
  energies \<open>[0, 1, 1]\<close> and the stopping powers \<open>[1, 1, 3]\<close> the stopping power at every
  energy above 1 is \<^verbatim>\<open>inf\<close>; there the integrand is 0 for a positive kB and \<^verbatim>\<open>nan\<close> for
  \<open>kB = 0\<close>.
\<close>

theorem repeated_last_energy:
  "1 < x \<Longrightarrow> get_dedx step_curve x = PosInf
     \<and> (0 < k \<longrightarrow> integrand step_curve k x = Num 0)
     \<and> integrand step_curve 0 x = NaN"
  by (simp add: step_curve_def get_dedx_def interp1d_def Let_def np_divide_def searchsorted_def
      integrand_def)

theorem repeated_last_energy_witness:
  "(1::real) < 2 \<and> get_dedx step_curve 2 = PosInf
   \<and> integrand step_curve (1 / 10) 2 = Num 0 \<and> integrand step_curve 0 2 = NaN"
  using repeated_last_energy [of 2 "1 / 10"] by simp

end
